theory Spec2Isabelle
  imports Main "HOL-Library.Sublist" "HOL-Library.AList"
begin

section \<open>Data model of the C# API generator (generateDotnetApi.js)\<close>

text \<open>
  A \<open>Documentation.Type\<close> object carries a name and the optional fields \<open>expression\<close>,
  \<open>union\<close>, \<open>templates\<close>, \<open>properties\<close>, \<open>args\<close> and \<open>returnType\<close>; an absent field
  (\<open>undefined\<close> or \<open>null\<close>) is \<open>None\<close>. A \<open>Documentation.Member\<close> is a class member or a
  parameter. The documentation payload \<open>spec\<close> is opaque: its type is the parameter \<open>'d\<close>.
\<close>

datatype 'd Type =
  Type (name: string) (expression: "string option") (union: "'d Type list option")
    (templates: "'d Type list option") (properties: "'d Member list option")
    (args: "'d Type list option") (returnType: "'d Type option")
and 'd Member =
  Member (kind: string) (mname: string) (malias: "string option") (required: bool)
    (async: bool) (mtype: "'d Type option") (argsArray: "'d Member list") (spec: "'d option")

text \<open>The \<open>parent\<close> of a member: a class or a synthesized type; only its name and alias are read.\<close>

datatype Parent = Parent (pname: string) (palias: "string option")

text \<open>Everything the generator throws: a runtime \<open>TypeError\<close> (a property read on
  \<open>undefined\<close> or \<open>null\<close>), \<open>throw new Error(msg)\<close>, and \<open>throw 'text'\<close>.\<close>

datatype error = TypeError | Error string | Thrown string

text \<open>The process-wide registries. A JavaScript \<open>Map\<close> keeps insertion order and \<open>set\<close> on
  an existing key replaces the value in place: an association list under \<open>AList.update\<close>.\<close>

record 'd State =
  modelTypes :: "(string \<times> 'd Type) list"
  documentedResults :: "(string \<times> string) list"
  enumTypes :: "(string \<times> string list) list"

text \<open>\<open>m.set(k, v)\<close>; \<open>m.get(k)\<close> is \<open>map_of m k\<close>.\<close>

definition mapSet :: "'k \<Rightarrow> 'v \<Rightarrow> ('k \<times> 'v) list \<Rightarrow> ('k \<times> 'v) list" where
  "mapSet k v m = AList.update k v m"

definition customTypeNames :: "(string \<times> string) list" where
  "customTypeNames =
     [(''domcontentloaded'', ''DOMContentLoaded''),
      (''networkidle'', ''NetworkIdle''),
      (''File'', ''FilePayload'')]"

definition nullableTypes :: "string list" where
  "nullableTypes = [''int'', ''bool'', ''decimal'', ''float'']"

text \<open>The registries as the script leaves them before the first class is rendered.\<close>

definition initialState :: "'d State" where
  "initialState =
     \<lparr>modelTypes = [], documentedResults = [],
      enumTypes = [(''MixedState'', [''On'', ''Off'', ''Mixed''])]\<rparr>"

section \<open>String helpers\<close>

text \<open>Strings are byte strings. \<open>toUpperCase\<close>, \<open>toLowerCase\<close> and the character classes
  of the regular expressions are those of the ASCII range (the identifiers of the API
  description are ASCII).\<close>

definition toUpperChar :: "char \<Rightarrow> char" where
  "toUpperChar c =
     (case map_of (zip ''abcdefghijklmnopqrstuvwxyz'' ''ABCDEFGHIJKLMNOPQRSTUVWXYZ'') c of
        None \<Rightarrow> c
      | Some u \<Rightarrow> u)"

definition toLowerChar :: "char \<Rightarrow> char" where
  "toLowerChar c =
     (case map_of (zip ''ABCDEFGHIJKLMNOPQRSTUVWXYZ'' ''abcdefghijklmnopqrstuvwxyz'') c of
        None \<Rightarrow> c
      | Some l \<Rightarrow> l)"

definition toLowerCase :: "string \<Rightarrow> string" where
  "toLowerCase s = map toLowerChar s"

text \<open>\<open>s.charAt(0).toUpperCase() + s.substring(1)\<close>; the empty string stays empty.\<close>

definition capitalize :: "string \<Rightarrow> string" where
  "capitalize s = (case s of [] \<Rightarrow> [] | c # r \<Rightarrow> toUpperChar c # r)"

text \<open>\<open>name.replace(/(HTTP[S]?)/g, ...)\<close>: every \<open>HTTP\<close> or \<open>HTTPS\<close> becomes \<open>Http\<close> or
  \<open>Https\<close>, scanning left to right.\<close>

fun replaceHTTP :: "string \<Rightarrow> string" where
  "replaceHTTP [] = []"
| "replaceHTTP (c # r) =
     (if prefix ''HTTPS'' (c # r) then ''Https'' @ replaceHTTP (drop 4 r)
      else if prefix ''HTTP'' (c # r) then ''Http'' @ replaceHTTP (drop 3 r)
      else c # replaceHTTP r)"

definition toTitleCase :: "string \<Rightarrow> string" where
  "toTitleCase nm =
     (if nm = ''dblclick'' then ''DblClick'' else capitalize (replaceHTTP nm))"

text \<open>\<open>xs.join(sep)\<close>.\<close>

fun join :: "string \<Rightarrow> string list \<Rightarrow> string" where
  "join sep [] = []"
| "join sep [x] = x"
| "join sep (x # y # ys) = x @ sep @ join sep (y # ys)"

text \<open>\<open>a || b\<close> on an optional string: the empty string is falsy.\<close>

definition orElse :: "string option \<Rightarrow> string \<Rightarrow> string" where
  "orElse a b = (case a of None \<Rightarrow> b | Some s \<Rightarrow> if s = [] then b else s)"

text \<open>A \<open>null\<close> inside a template literal prints as \<open>null\<close>; \<open>Array.prototype.join\<close> prints it
  as the empty string.\<close>

definition inTemplate :: "string option \<Rightarrow> string" where
  "inTemplate v = (case v of None \<Rightarrow> ''null'' | Some s \<Rightarrow> s)"

definition inJoin :: "string option \<Rightarrow> string" where
  "inJoin v = (case v of None \<Rightarrow> [] | Some s \<Rightarrow> s)"

section \<open>The name map\<close>

text \<open>\<open>classNameMap\<close>: one entry per documented class (the parameter \<open>classes\<close> is
  \<open>documentation.classesArray\<close> mapped to the class names), then the fixed entries; a later
  entry for the same name replaces the earlier one.\<close>

definition classNameMap :: "string list \<Rightarrow> (string \<times> string) list" where
  "classNameMap classes =
     foldl (\<lambda>m (k, v). mapSet k v m) []
       (map (\<lambda>x. (x, ''I'' @ toTitleCase x)) classes @
        [(''Error'', ''Exception''), (''TimeoutError'', ''TimeoutException''),
         (''EvaluationArgument'', ''object''), (''boolean'', ''bool''),
         (''Serializable'', ''T''), (''any'', ''object''), (''Buffer'', ''byte[]''),
         (''path'', ''string''), (''URL'', ''string''), (''RegExp'', ''Regex''),
         (''Readable'', ''Stream'')])"

section \<open>The model-type registry\<close>

definition registerModelType :: "string \<Rightarrow> 'd Type \<Rightarrow> 'd State \<Rightarrow> 'd State" where
  "registerModelType typeName type st =
     (if typeName \<in> set [''object'', ''string'', ''int''] then st
      else case map_of (modelTypes st) typeName of
             Some potentialType \<Rightarrow> st
           | None \<Rightarrow> st\<lparr>modelTypes := mapSet typeName type (modelTypes st)\<rparr>)"

section \<open>The type translator\<close>

text \<open>A name callback may read and write the registries and may throw.\<close>

type_synonym 'd callback = "'d State \<Rightarrow> 'd Type \<Rightarrow> error + (string \<times> 'd State)"

text \<open>The default callback \<open>t => t.name\<close>.\<close>

definition defaultCallback :: "'d callback" where
  "defaultCallback st t = Inr (name t, st)"

text \<open>\<open>type.templates && type.templates.length == 2\<close> reads the length of a present list
  only; an absent list fails the test as the empty list does.\<close>

definition templatesList :: "'d Type \<Rightarrow> 'd Type list" where
  "templatesList t = (case templates t of None \<Rightarrow> [] | Some ts \<Rightarrow> ts)"

text \<open>The test \<open>union.length == 2 && union[1].name === 'Array' &&
  union[1].templates[0].name === union[0].name\<close>, with the \<open>TypeError\<close> of reading
  \<open>templates[0].name\<close> when the \<open>Array\<close> variant has no template.\<close>

definition unionIsArrayOfFirst :: "'d Type list \<Rightarrow> error + bool" where
  "unionIsArrayOfFirst us =
     (if length us = 2 \<and> name (us ! 1) = ''Array'' then
        (case templates (us ! 1) of
           None \<Rightarrow> Inl TypeError
         | Some [] \<Rightarrow> Inl TypeError
         | Some (e # _) \<Rightarrow> Inr (name e = name (us ! 0)))
      else Inr False)"

text \<open>The variants, templates, arguments and return type of a type are smaller than it.\<close>

lemma size_nth_less_Type:
  "i < length ts \<Longrightarrow> union t = Some ts \<or> templates t = Some ts \<or> args t = Some ts
     \<Longrightarrow> size (ts ! i) < size t"
proof -
  assume i: "i < length ts" and f: "union t = Some ts \<or> templates t = Some ts \<or> args t = Some ts"
  have "size (ts ! i) \<le> size_list size ts"
    using i by (intro size_list_estimation') (auto simp: nth_mem)
  moreover have "size_list size ts < size t"
    using f by (cases t) auto
  ultimately show ?thesis by simp
qed

lemma size_list_less_Type:
  "union t = Some ts \<or> templates t = Some ts \<or> args t = Some ts
     \<Longrightarrow> size_list size ts < size t"
  by (cases t) auto

lemma size_returnType_less: "returnType t = Some r \<Longrightarrow> size r < size t"
  by (cases t) auto

lemma templatesList_Some: "templatesList t \<noteq> [] \<Longrightarrow> templates t = Some (templatesList t)"
  by (auto simp: templatesList_def split: option.splits)

function translateType ::
    "string list \<Rightarrow> Parent \<Rightarrow> 'd callback \<Rightarrow> 'd State \<Rightarrow> 'd Type
       \<Rightarrow> error + (string option \<times> 'd State)"
  and translateTypes ::
    "string list \<Rightarrow> Parent \<Rightarrow> 'd callback \<Rightarrow> 'd State \<Rightarrow> 'd Type list
       \<Rightarrow> error + (string option list \<times> 'd State)"
where
  "translateType classes parent generateNameCallback st t =
     (if expression t = Some ''[null]|[Error]'' then Inr (Some ''void'', st)
      else if expression t = Some ''[boolean]|\"mixed\"'' then Inr (Some ''MixedState'', st)
      else case union t of
        Some us \<Rightarrow>
          (if us = [] then Inl TypeError
           else if name (us ! 0) = ''null'' \<and> length us = 2 then
             translateType classes parent generateNameCallback st (us ! 1)
           else if expression t = Some ''[string]|[Buffer]'' then Inr (Some ''byte[]'', st)
           else if expression t = Some ''[string]|[float]''
                 \<or> expression t = Some ''[string]|[float]|[boolean]'' then
             Inr (Some ''string'', st)
           else case unionIsArrayOfFirst us of
             Inl e \<Rightarrow> Inl e
           | Inr True \<Rightarrow> Inr (Some (''IEnumerable<'' @ name (us ! 0) @ ''>''), st)
           | Inr False \<Rightarrow>
               if expression t = Some ''[float]|\"raf\"'' then Inr (Some ''Polling'', st)
               else if name t \<noteq> [] then
                 Inr (Some (name t),
                      st\<lparr>enumTypes := mapSet (name t) (map name us) (enumTypes st)\<rparr>)
               else Inr (None, st))
      | None \<Rightarrow>
          if name t = ''Array'' then
            (case templates t of
               None \<Rightarrow> Inl TypeError
             | Some ts \<Rightarrow>
                 if length ts \<noteq> 1 then
                   Inl (Error (''Array ('' @ name t @ '' from '' @ pname parent
                                @ '') has more than 1 dimension. Panic.''))
                 else case translateType classes parent generateNameCallback st (ts ! 0) of
                   Inl e \<Rightarrow> Inl e
                 | Inr (innerType, st1) \<Rightarrow>
                     Inr (Some (''IEnumerable<'' @ inTemplate innerType @ ''>''), st1))
          else if name t = ''Object'' then
            (if length (templatesList t) = 2 then
               (case translateType classes parent generateNameCallback st (templatesList t ! 0) of
                  Inl e \<Rightarrow> Inl e
                | Inr (keyType, st1) \<Rightarrow>
                    (case translateType classes parent generateNameCallback st1
                            (templatesList t ! 1) of
                       Inl e \<Rightarrow> Inl e
                     | Inr (valueType, st2) \<Rightarrow>
                         Inr (Some (''IEnumerable<KeyValuePair<'' @ inTemplate keyType @ '', ''
                                    @ inTemplate valueType @ ''>>''), st2)))
             else if properties t = None then Inr (Some ''object'', st)
             else case generateNameCallback st t of
               Inl e \<Rightarrow> Inl e
             | Inr (objectName, st1) \<Rightarrow>
                 if objectName = ''Object'' then Inl (Error ''Object unexpected'')
                 else Inr (Some objectName, registerModelType objectName t st1))
          else if name t = ''Map'' then
            (if length (templatesList t) = 2 then
               (case translateType classes parent generateNameCallback st (templatesList t ! 0) of
                  Inl e \<Rightarrow> Inl e
                | Inr (keyType, st1) \<Rightarrow>
                    (case translateType classes parent generateNameCallback st1
                            (templatesList t ! 1) of
                       Inl e \<Rightarrow> Inl e
                     | Inr (valueType, st2) \<Rightarrow>
                         Inr (Some (''Dictionary<'' @ inTemplate keyType @ '', ''
                                    @ inTemplate valueType @ ''>''), st2)))
             else Inl (Thrown ''Map has invalid number of templates.''))
          else if name t = ''function'' then
            (case args t of
               None \<Rightarrow> Inr (Some ''Action'', st)
             | Some targs \<Rightarrow>
                 if expression t = Some ''[function]'' then Inr (Some ''Action'', st)
                 else case translateTypes classes parent generateNameCallback st targs of
                   Inl e \<Rightarrow> Inl e
                 | Inr (translatedCallbackArguments, st1) \<Rightarrow>
                     if None \<in> set translatedCallbackArguments then
                       Inl (Error ''There was an argument we could not parse. Aborting.'')
                     else
                       (case returnType t of
                          None \<Rightarrow>
                            Inr (Some (''Action<''
                                       @ join '', '' (map inJoin translatedCallbackArguments)
                                       @ ''>''), st1)
                        | Some r \<Rightarrow>
                            (case translateType classes parent generateNameCallback st1 r of
                               Inl e \<Rightarrow> Inl e
                             | Inr (None, st2) \<Rightarrow>
                                 Inl (Error ''Unexpected null as return type.'')
                             | Inr (Some rt, st2) \<Rightarrow>
                                 Inr (Some (''Func<''
                                            @ join '', '' (map inJoin translatedCallbackArguments)
                                            @ '', '' @ rt @ ''>''), st2))))
          else case templates t of
            Some ts \<Rightarrow>
              (case translateTypes classes parent defaultCallback st ts of
                 Inl e \<Rightarrow> Inl e
               | Inr (types, st1) \<Rightarrow>
                   Inr (Some (name t @ ''<'' @ join '', '' (map inJoin types) @ ''>''), st1))
          | None \<Rightarrow>
              Inr (Some (orElse (map_of (classNameMap classes) (name t)) (name t)), st))"
| "translateTypes classes parent generateNameCallback st [] = Inr ([], st)"
| "translateTypes classes parent generateNameCallback st (t # ts) =
     (case translateType classes parent generateNameCallback st t of
        Inl e \<Rightarrow> Inl e
      | Inr (v, st1) \<Rightarrow>
          (case translateTypes classes parent generateNameCallback st1 ts of
             Inl e \<Rightarrow> Inl e
           | Inr (vs, st2) \<Rightarrow> Inr (v # vs, st2)))"
  by pat_completeness auto

termination
  apply (relation "measure (\<lambda>x. case x of
            Inl (_, _, _, _, t) \<Rightarrow> size t
          | Inr (_, _, _, _, ts) \<Rightarrow> size_list size ts)")
  apply (auto simp: size_nth_less_Type size_list_less_Type size_returnType_less)
  apply (rule size_nth_less_Type[where ts = "templatesList t" for t], simp,
         rule disjI2, rule disjI1, rule templatesList_Some, force)+
  done

declare translateType.simps [simp del]

section \<open>The name synthesizer\<close>

text \<open>\<open>generateEnumNameIfApplicable\<close>: \<open>None\<close> is the \<open>null\<close> result. With an empty union the
  two lengths agree and \<open>union[0]\<close> is never read.\<close>

definition generateEnumNameIfApplicable :: "'d Type \<Rightarrow> string option" where
  "generateEnumNameIfApplicable type =
     (case union type of
        None \<Rightarrow> None
      | Some us \<Rightarrow>
          (let potentialValues = filter (\<lambda>u. prefix ''\"'' (name u)) us in
           if length potentialValues \<noteq> length us
              \<and> \<not> (name (us ! 0) = ''null'' \<and> length potentialValues = length us - 1)
           then None
           else Some (name type)))"

text \<open>\<open>typesDiffer\<close>, the local function of \<open>generateNameDefault\<close>. \<open>JSON.stringify\<close> on the
  property lists is the parameter \<open>stringify\<close>; an expression is truthy when it is present and
  not empty.\<close>

definition truthy :: "string option \<Rightarrow> bool" where
  "truthy v = (case v of None \<Rightarrow> False | Some s \<Rightarrow> s \<noteq> [])"

definition typesDiffer ::
    "('d Member list option \<Rightarrow> 'j) \<Rightarrow> 'd Type \<Rightarrow> 'd Type \<Rightarrow> bool" where
  "typesDiffer stringify left right =
     (if truthy (expression left) \<and> truthy (expression right)
      then expression left \<noteq> expression right
      else stringify (properties right) \<noteq> stringify (properties left))"

text \<open>The first two statements of the loop body: drop one trailing \<open>s\<close> (two names are
  exempt), then apply \<open>customTypeNames\<close>.\<close>

definition stripPlural :: "string \<Rightarrow> string" where
  "stripPlural attemptedName =
     (if suffix ''s'' attemptedName
         \<and> toLowerCase attemptedName \<notin> set [''properties'', ''httpcredentials'']
      then take (length attemptedName - 1) attemptedName
      else attemptedName)"

definition applyCustomName :: "string \<Rightarrow> string" where
  "applyCustomName attemptedName =
     (if truthy (map_of customTypeNames attemptedName)
      then the (map_of customTypeNames attemptedName)
      else attemptedName)"

text \<open>The \<open>while (true)\<close> loop. \<open>names\<close> is the JavaScript array used as a stack:
  \<open>names.pop()\<close> takes its last element. Every round that continues pops one name, so the
  loop ends with a name or with the error.\<close>

function nameLoop ::
    "('d Member list option \<Rightarrow> 'j) \<Rightarrow> 'd Type \<Rightarrow> (string \<times> 'd Type) list
       \<Rightarrow> string list \<Rightarrow> string \<Rightarrow> error + (string \<times> (string \<times> 'd Type) list)" where
  "nameLoop stringify t mts names attemptedName0 =
     (let attemptedName = applyCustomName (stripPlural attemptedName0) in
      if (case map_of mts attemptedName of
            Some probableType \<Rightarrow> typesDiffer stringify t probableType
          | None \<Rightarrow> False)
         \<or> attemptedName \<in> set [''Value'']
      then
        (if names = [] then Inl (Error (''Ran out of possible names: '' @ attemptedName))
         else nameLoop stringify t mts (butlast names) (last names @ attemptedName))
      else Inr (attemptedName, mapSet attemptedName t mts))"
  by pat_completeness auto
termination
  by (relation "measure (\<lambda>(stringify, t, mts, names, a). length names)") auto

declare nameLoop.simps [simp del]

text \<open>The array \<open>names\<close> built from the lexical context, after the duplicate of the member's
  name has been dropped.\<close>

definition candidateNames :: "Parent \<Rightarrow> 'd Member \<Rightarrow> string \<Rightarrow> string list" where
  "candidateNames parent m nm =
     (let names = [orElse (palias parent) (pname parent),
                   toTitleCase (orElse (malias m) (mname m)),
                   toTitleCase nm]
      in if names ! 2 = names ! 1 then butlast names else names)"

definition generateNameDefault ::
    "('d Member list option \<Rightarrow> 'j) \<Rightarrow> 'd Member option \<Rightarrow> string \<Rightarrow> Parent
       \<Rightarrow> 'd callback" where
  "generateNameDefault stringify member nm parent st t =
     (if properties t = None \<and> templates t = None \<and> union t = None
         \<and> expression t = Some ''[Object]''
      then Inr (''object'', st)
      else
        let enumName = generateEnumNameIfApplicable t in
        case member of
          None \<Rightarrow> Inr (orElse enumName (name t), st)
        | Some m \<Rightarrow>
            if truthy enumName then Inr (orElse enumName (name t), st)
            else if kind m = ''method'' \<or> kind m = ''property'' then
              (let names = candidateNames parent m nm
               in case nameLoop stringify t (modelTypes st) (butlast names) (last names) of
                    Inl e \<Rightarrow> Inl e
                  | Inr (attemptedName, mts) \<Rightarrow> Inr (attemptedName, st\<lparr>modelTypes := mts\<rparr>))
            else if kind m = ''event'' then Inr (nm @ ''Payload'', st)
            else Inr (orElse enumName (name t), st))"

text \<open>Run a list of computations in order; the first error aborts.\<close>

fun sequenceE :: "(error + 'a) list \<Rightarrow> error + 'a list" where
  "sequenceE [] = Inr []"
| "sequenceE (x # xs) =
     (case x of
        Inl e \<Rightarrow> Inl e
      | Inr v \<Rightarrow> (case sequenceE xs of Inl e \<Rightarrow> Inl e | Inr vs \<Rightarrow> Inr (v # vs)))"

section \<open>Rendering a method\<close>

text \<open>
  What \<open>renderMethod\<close> takes from outside this file: the two renderers of the module
  \<open>xmlDocumentation\<close>, applied to a member's documentation payload (which may be absent),
  the names of the documented classes, \<open>JSON.stringify\<close> on property lists, and the engine's
  \<open>Array.prototype.sort\<close> under the comparator of \<open>renderMethod\<close>.
\<close>

record ('d, 'j) Env =
  renderXmlDoc :: "'d option \<Rightarrow> string list"
  renderTextOnly :: "'d option \<Rightarrow> string list"
  classesArray :: "string list"
  jsonStringify :: "'d Member list option \<Rightarrow> 'j"
  engineSort :: "'d Member list \<Rightarrow> 'd Member list"

text \<open>The local state of one \<open>renderMethod\<close> call, next to the process-wide registries:
  \<open>paramDocs\<close>, the array \<open>args\<close> (here \<open>argList\<close>), \<open>explodedArgs\<close> and \<open>argTypeMap\<close>.\<close>

record 'd MethodState =
  globals :: "'d State"
  paramDocs :: "(string \<times> string list) list"
  argList :: "string list"
  explodedArgs :: "string list"
  argTypeMap :: "(string \<times> string) list"

definition toArgumentName :: "string \<Rightarrow> string" where
  "toArgumentName nm = (if nm = ''event'' then ''@'' @ nm else nm)"

definition toMemberName :: "'d Member \<Rightarrow> bool \<Rightarrow> string" where
  "toMemberName member omitAsync =
     (let assumedName = toTitleCase (orElse (malias member) (mname member)) in
      if kind member = ''interface'' then ''I'' @ assumedName
      else if \<not> omitAsync \<and> kind member = ''method'' \<and> async member
              \<and> \<not> suffix ''Async'' assumedName
      then assumedName @ ''Async''
      else assumedName)"

text \<open>\<open>resolveType\<close>: \<open>translateType\<close> with the callback that names the result type of
  the method and records its documentation.\<close>

definition resultName :: "'d Member \<Rightarrow> Parent \<Rightarrow> 'd callback" where
  "resultName member parent st t =
     (let newName = pname parent @ toMemberName member True @ ''Result'' in
      Inr (newName,
           st\<lparr>documentedResults :=
                 mapSet newName
                   (''Result of calling <see cref=\"I'' @ toTitleCase (pname parent) @ ''.''
                    @ toMemberName member False @ ''\"/>.'')
                   (documentedResults st)\<rparr>))"

definition resolveType ::
    "('d, 'j) Env \<Rightarrow> 'd Member \<Rightarrow> Parent \<Rightarrow> 'd State \<Rightarrow> 'd Type
       \<Rightarrow> error + (string option \<times> 'd State)" where
  "resolveType env member parent st type =
     translateType (classesArray env) parent (resultName member parent) st type"

text \<open>The first part of \<open>renderMethod\<close>: the return type. \<open>None\<close> is \<open>null\<close>; \<open>type || ...\<close>
  takes the right-hand side for \<open>null\<close> and for the empty string.\<close>

definition returnTypeOf ::
    "('d, 'j) Env \<Rightarrow> 'd Member \<Rightarrow> Parent \<Rightarrow> 'd State
       \<Rightarrow> error + (string option \<times> 'd State)" where
  "returnTypeOf env member parent st =
     (case mtype member of
        None \<Rightarrow> Inl TypeError
      | Some mt \<Rightarrow>
          (case
             (if name mt = ''Object'' \<or> name mt = ''Array'' then
                (case (if name mt = ''Array'' then
                         (case templates mt of
                            None \<Rightarrow> Inl TypeError
                          | Some [] \<Rightarrow> Inl TypeError
                          | Some (i # _) \<Rightarrow> Inr (i, True))
                       else Inr (mt, False)) of
                   Inl e \<Rightarrow> Inl e
                 | Inr (innerType, isArray) \<Rightarrow>
                     if expression innerType = Some ''[Object]<[string], [string]>'' then
                       Inr (None, st)
                     else if \<not> isArray \<and> properties innerType = None then
                       Inr (Some ''dynamic'', st)
                     else
                       (case (if truthy (map_of (classNameMap (classesArray env)) (name innerType))
                              then Inr (map_of (classNameMap (classesArray env)) (name innerType), st)
                              else resolveType env member parent st innerType) of
                          Inl e \<Rightarrow> Inl e
                        | Inr (ty, st1) \<Rightarrow>
                            if isArray then
                              Inr (Some (''IReadOnlyCollection<'' @ inTemplate ty @ ''>''), st1)
                            else Inr (ty, st1)))
              else Inr (None, st)) of
             Inl e \<Rightarrow> Inl e
           | Inr (ty, st1) \<Rightarrow>
               if truthy ty then Inr (ty, st1) else resolveType env member parent st1 mt))"

text \<open>\<open>addParamsDoc\<close> files the text under the parameter's name without a leading \<open>@\<close>.\<close>

definition docKey :: "string \<Rightarrow> string" where
  "docKey paramName = (if prefix ''@'' paramName then drop 1 paramName else paramName)"

definition addParamsDoc ::
    "string \<Rightarrow> string list \<Rightarrow> 'd MethodState \<Rightarrow> error + 'd MethodState" where
  "addParamsDoc paramName0 docs ms =
     (let paramName = docKey paramName0 in
      case map_of (paramDocs ms) paramName of
        Some _ \<Rightarrow> Inl (Error (''Parameter '' @ paramName @ '' already exists in the docs.''))
      | None \<Rightarrow> Inr (ms\<lparr>paramDocs := mapSet paramName docs (paramDocs ms)\<rparr>))"

definition pushArg ::
    "string option \<Rightarrow> string \<Rightarrow> 'd Member \<Rightarrow> bool \<Rightarrow> 'd MethodState \<Rightarrow> 'd MethodState" where
  "pushArg innerArgType innerArgName argument isExploded ms =
     (let isNullable = (case innerArgType of None \<Rightarrow> False | Some ty \<Rightarrow> ty \<in> set nullableTypes);
          requiredPrefix =
            (if required argument \<or> isExploded then [] else if isNullable then ''?'' else []);
          requiredSuffix = (if required argument \<or> isExploded then [] else '' = default'');
          push = inTemplate innerArgType @ requiredPrefix @ '' '' @ innerArgName @ requiredSuffix;
          ms1 = (if isExploded then ms\<lparr>explodedArgs := explodedArgs ms @ [push]\<rparr>
                 else ms\<lparr>argList := argList ms @ [push]\<rparr>)
      in ms1\<lparr>argTypeMap := mapSet push innerArgName (argTypeMap ms1)\<rparr>)"

text \<open>
  \<open>newArg.replace(/\IEnumerable<(.*)\>/g, (m, v) => 'Enumerable' + v[0].toUpperCase() +
  v.substring(1))\<close>: a match starts at the leftmost \<open>IEnumerable<\<close> that has a \<open>>\<close> later on
  the same line and, the star being greedy, ends at the last \<open>>\<close> of that line; the search
  goes on after the match. With nothing between the brackets \<open>v[0]\<close> is \<open>undefined\<close>: a
  \<open>TypeError\<close>. Line terminators are line feed and carriage return.
\<close>

definition lineTerminator :: "char \<Rightarrow> bool" where
  "lineTerminator c = (c = CHR 0x0A \<or> c = CHR 0x0D)"

text \<open>The text before the last \<open>>\<close> of a line, if the line has one.\<close>

fun beforeLastClose :: "string \<Rightarrow> string option" where
  "beforeLastClose [] = None"
| "beforeLastClose (c # r) =
     (case beforeLastClose r of
        Some v \<Rightarrow> Some (c # v)
      | None \<Rightarrow> if c = CHR ''>'' then Some [] else None)"

fun replaceEnumerable :: "string \<Rightarrow> error + string" where
  "replaceEnumerable [] = Inr []"
| "replaceEnumerable (c # r) =
     (if prefix ''IEnumerable<'' (c # r) then
        (case beforeLastClose (takeWhile (\<lambda>x. \<not> lineTerminator x) (drop 11 r)) of
           Some v \<Rightarrow>
             (if v = [] then Inl TypeError
              else case replaceEnumerable (drop (11 + length v + 1) r) of
                     Inl e \<Rightarrow> Inl e
                   | Inr rest \<Rightarrow> Inr (''Enumerable'' @ capitalize v @ rest))
         | None \<Rightarrow>
             (case replaceEnumerable r of Inl e \<Rightarrow> Inl e | Inr rest \<Rightarrow> Inr (c # rest)))
      else (case replaceEnumerable r of Inl e \<Rightarrow> Inl e | Inr rest \<Rightarrow> Inr (c # rest)))"

text \<open>
  \<open>nonGenericType.match(/(?<=^[\s"']*)(\w+)/g, '')[0]\<close>: the word that follows the leading
  white space and quotes. Without such a word \<open>match\<close> returns \<open>null\<close> and reading \<open>[0]\<close> is
  a \<open>TypeError\<close>; a word is never empty, so the alternative after \<open>||\<close> is never taken.
\<close>

definition spaceOrQuote :: "char \<Rightarrow> bool" where
  "spaceOrQuote c = (c \<in> set [CHR 0x09, CHR 0x0A, CHR 0x0B, CHR 0x0C, CHR 0x0D, CHR '' '',
                               CHR 0x22, CHR 0x27])"

definition wordChar :: "char \<Rightarrow> bool" where
  "wordChar c =
     (c \<in> set ''abcdefghijklmnopqrstuvwxyzABCDEFGHIJKLMNOPQRSTUVWXYZ0123456789_'')"

definition sanitizedArgName :: "string \<Rightarrow> error + string" where
  "sanitizedArgName nonGenericType =
     (let w = takeWhile wordChar (dropWhile spaceOrQuote nonGenericType) in
      if w = [] then Inl TypeError else Inr w)"

text \<open>The loop over the translated variants of an exploded union argument.\<close>

fun explodeArgs ::
    "string \<Rightarrow> string list \<Rightarrow> 'd Member \<Rightarrow> string list \<Rightarrow> 'd MethodState
       \<Rightarrow> error + 'd MethodState" where
  "explodeArgs argName argDocumentation arg [] ms = Inr ms"
| "explodeArgs argName argDocumentation arg (newArg # translatedArguments) ms =
     (case replaceEnumerable newArg of
        Inl e \<Rightarrow> Inl e
      | Inr nonGenericType \<Rightarrow>
          (case sanitizedArgName nonGenericType of
             Inl e \<Rightarrow> Inl e
           | Inr sanitized \<Rightarrow>
               (let newArgName = argName @ capitalize sanitized in
                case addParamsDoc newArgName argDocumentation
                       (pushArg (Some newArg) newArgName arg True ms) of
                  Inl e \<Rightarrow> Inl e
                | Inr ms1 \<Rightarrow> explodeArgs argName argDocumentation arg translatedArguments ms1)))"

text \<open>The callback \<open>(t) => { throw new Error('Not supported'); }\<close>.\<close>

definition notSupported :: "'d callback" where
  "notSupported st t = Inl (Error ''Not supported'')"

text \<open>An argument's properties are smaller than the argument.\<close>

lemma size_properties_less_Member:
  "mtype a = Some ty \<Longrightarrow> properties ty = Some ps \<Longrightarrow> size_list size ps < size a"
  by (cases a; cases ty) auto

function processArg ::
    "('d, 'j) Env \<Rightarrow> 'd Member \<Rightarrow> Parent \<Rightarrow> 'd Member \<Rightarrow> 'd MethodState
       \<Rightarrow> error + 'd MethodState"
  and processArgs ::
    "('d, 'j) Env \<Rightarrow> 'd Member \<Rightarrow> Parent \<Rightarrow> 'd Member list \<Rightarrow> 'd MethodState
       \<Rightarrow> error + 'd MethodState"
where
  "processArg env member parent arg ms =
     (case mtype arg of
        None \<Rightarrow> Inl TypeError
      | Some ty \<Rightarrow>
          if mname arg = ''options'' then
            (case properties ty of
               None \<Rightarrow> Inl TypeError
             | Some ps \<Rightarrow> processArgs env member parent ps ms)
          else if expression ty = Some ''[string]|[path]'' then
            (let argName = toArgumentName (mname arg);
                 ms1 = pushArg (Some ''string'') (argName @ '' = null'') arg False ms;
                 ms2 = pushArg (Some ''string'') (argName @ ''Path = null'') arg False ms1
             in if spec arg \<noteq> None then
                  (case addParamsDoc argName (renderTextOnly env (spec arg)) ms2 of
                     Inl e \<Rightarrow> Inl e
                   | Inr ms3 \<Rightarrow>
                       addParamsDoc (argName @ ''Path'')
                         [''Instead of specifying <paramref name=\"'' @ argName
                          @ ''\"/>, gives the file name to load from.''] ms3)
                else Inr ms2)
          else if expression ty = Some ''[boolean]|[Array]<[string]>'' then
            (let argName = toArgumentName (mname arg) in
             case union ty of
               None \<Rightarrow> Inl TypeError
             | Some [] \<Rightarrow> Inl TypeError
             | Some (u0 # us) \<Rightarrow>
                 (case translateType (classesArray env) parent notSupported (globals ms) u0 of
                    Inl e \<Rightarrow> Inl e
                  | Inr (leftArgType, st1) \<Rightarrow>
                      (case us of
                         [] \<Rightarrow> Inl TypeError
                       | u1 # _ \<Rightarrow>
                           (case translateType (classesArray env) parent notSupported st1 u1 of
                              Inl e \<Rightarrow> Inl e
                            | Inr (rightArgType, st2) \<Rightarrow>
                                (let ms1 = pushArg leftArgType argName arg False
                                             (ms\<lparr>globals := st2\<rparr>);
                                     ms2 = pushArg rightArgType (argName @ ''Values'') arg
                                             False ms1
                                 in case addParamsDoc argName (renderTextOnly env (spec arg))
                                           ms2 of
                                      Inl e \<Rightarrow> Inl e
                                    | Inr ms3 \<Rightarrow>
                                        addParamsDoc (argName @ ''Values'')
                                          [''The values to take into account when <paramref name=\"''
                                           @ argName @ ''\"/> is <code>true</code>.''] ms3)))))
          else
            (let argName = toArgumentName (orElse (malias arg) (mname arg));
                 cb = generateNameDefault (jsonStringify env) (Some member) argName parent
             in case translateType (classesArray env) parent cb (globals ms) ty of
                  Inl e \<Rightarrow> Inl e
                | Inr (argType, st1) \<Rightarrow>
                    if argType = None \<and> union ty \<noteq> None then
                      (case translateTypes (classesArray env) parent cb st1 (the (union ty)) of
                         Inl e \<Rightarrow> Inl e
                       | Inr (translatedArguments, st2) \<Rightarrow>
                           if None \<in> set translatedArguments then
                             Inl (Error
                               ''Unexpected null in translated argument types. Aborting.'')
                           else
                             (case explodeArgs argName (renderTextOnly env (spec arg)) arg
                                     (map the translatedArguments) (ms\<lparr>globals := st2\<rparr>) of
                                Inl e \<Rightarrow> Inl e
                              | Inr ms1 \<Rightarrow>
                                  Inr (ms1\<lparr>argList := argList ms1 @
                                         [if required arg then ''EXPLODED_ARG''
                                          else ''OPTIONAL_EXPLODED_ARG'']\<rparr>)))
                    else
                      (case addParamsDoc argName (renderTextOnly env (spec arg))
                              (ms\<lparr>globals := st1\<rparr>) of
                         Inl e \<Rightarrow> Inl e
                       | Inr ms1 \<Rightarrow>
                           if argName = ''timeout'' \<and> argType = Some ''decimal'' then
                             Inr (ms1\<lparr>argList := argList ms1 @ [''int timeout = 0'']\<rparr>)
                           else Inr (pushArg argType argName arg False ms1))))"
| "processArgs env member parent [] ms = Inr ms"
| "processArgs env member parent (a # as) ms =
     (case processArg env member parent a ms of
        Inl e \<Rightarrow> Inl e
      | Inr ms1 \<Rightarrow> processArgs env member parent as ms1)"
  by pat_completeness auto
termination
  by (relation "measure (\<lambda>x. case x of
            Inl (_, _, _, a, _) \<Rightarrow> size a
          | Inr (_, _, _, as, _) \<Rightarrow> size_list size as)")
     (auto simp: size_properties_less_Member)

declare processArg.simps [simp del]

text \<open>\<open>s.includes(sub)\<close> on strings.\<close>

fun includesStr :: "string \<Rightarrow> string \<Rightarrow> bool" where
  "includesStr sub [] = (sub = [])"
| "includesStr sub (c # r) = (prefix sub (c # r) \<or> includesStr sub r)"

text \<open>\<open>xs.indexOf(v)\<close> where \<open>v\<close> is the result of \<open>xs.find(...)\<close>: \<open>undefined\<close> (here
  \<open>None\<close>) is in no array of strings, and the index is then \<open>-1\<close>.\<close>

definition indexOf :: "'a list \<Rightarrow> 'a option \<Rightarrow> int" where
  "indexOf xs v =
     (case v of
        None \<Rightarrow> - 1
      | Some x \<Rightarrow> if x \<in> set xs then int (length (takeWhile (\<lambda>y. y \<noteq> x) xs)) else - 1)"

text \<open>\<open>xs.splice(start, 0, x)\<close>: a negative start counts from the end, and the start is
  clamped to the array.\<close>

definition spliceInsert :: "int \<Rightarrow> 'a \<Rightarrow> 'a list \<Rightarrow> 'a list" where
  "spliceInsert start x xs =
     (let len = int (length xs);
          k = nat (if start < 0 then max (len + start) 0 else min start len)
      in take k xs @ [x] @ drop k xs)"

definition waitForExclusions :: "string list" where
  "waitForExclusions =
     [''WaitForTimeoutAsync'', ''WaitForFunctionAsync'', ''WaitForLoadStateAsync'',
      ''WaitForURLAsync'', ''WaitForSelectorAsync'', ''WaitForElementStateAsync'']"

definition actionArg :: string where
  "actionArg = ''Func<Task> action = default''"

text \<open>The \<open>WaitFor\<close> step of \<open>renderMethod\<close>.\<close>

definition insertWaitForAction :: "string \<Rightarrow> 'd MethodState \<Rightarrow> error + 'd MethodState" where
  "insertWaitForAction nm ms =
     (if includesStr ''WaitFor'' nm \<and> nm \<notin> set waitForExclusions then
        (let firstOptional = find (\<lambda>a. includesStr ''='' a) (argList ms);
             ms1 = ms\<lparr>argList :=
                        spliceInsert (indexOf (argList ms) firstOptional) actionArg (argList ms),
                      argTypeMap := mapSet actionArg ''action'' (argTypeMap ms)\<rparr>
         in addParamsDoc ''action'' [''Action to perform while waiting''] ms1)
      else Inr ms)"

text \<open>\<open>printArgDoc\<close>: the lines pushed to \<open>out\<close>. An absent \<open>value\<close> (a parameter without
  an entry in \<open>paramDocs\<close>) makes \<open>value.length\<close> a \<open>TypeError\<close>.\<close>

definition paramLines :: "string \<Rightarrow> string list \<Rightarrow> string list" where
  "paramLines nm v =
     (if length v = 1 then [''/// <param name=\"'' @ nm @ ''\">'' @ v ! 0 @ ''</param>'']
      else [''/// <param name=\"'' @ nm @ ''\">''] @ map (\<lambda>l. ''/// '' @ l) v
           @ [''/// </param>''])"

definition printArgDoc :: "string \<Rightarrow> string list option \<Rightarrow> error + string list" where
  "printArgDoc nm value =
     (case value of None \<Rightarrow> Inl TypeError | Some v \<Rightarrow> Inr (paramLines nm v))"

definition explodedMarker :: "string \<Rightarrow> bool" where
  "explodedMarker a = (a = ''EXPLODED_ARG'' \<or> a = ''OPTIONAL_EXPLODED_ARG'')"

text \<open>The argument list of the overload for one exploded argument.\<close>

definition overloadedArgs :: "string \<Rightarrow> string list \<Rightarrow> string list" where
  "overloadedArgs explodedArg as = map (\<lambda>a. if explodedMarker a then explodedArg else a) as"

text \<open>The documentation of one rendered argument in an overload: its name is looked up in
  \<open>argTypeMap\<close>, the text in \<open>paramDocs\<close>; an argument without a name there has no text
  either.\<close>

definition argDoc :: "'d MethodState \<Rightarrow> string \<Rightarrow> error + string list" where
  "argDoc ms a =
     (case map_of (argTypeMap ms) a of
        None \<Rightarrow> Inl TypeError
      | Some argType \<Rightarrow> printArgDoc argType (map_of (paramDocs ms) argType))"

definition signature :: "string option \<Rightarrow> string \<Rightarrow> string list \<Rightarrow> string" where
  "signature type nm as = inTemplate type @ '' '' @ nm @ ''('' @ join '', '' as @ '');''"

text \<open>\<open>explodedArgs.forEach(...)\<close>: one overload per exploded argument, a blank line
  between two overloads.\<close>

fun renderOverloads ::
    "string list \<Rightarrow> string option \<Rightarrow> string \<Rightarrow> 'd MethodState \<Rightarrow> string list
       \<Rightarrow> error + string list" where
  "renderOverloads xmlDoc type nm ms [] = Inr []"
| "renderOverloads xmlDoc type nm ms (explodedArg # rest) =
     (case sequenceE (map (\<lambda>a. argDoc ms (if explodedMarker a then explodedArg else a))
                        (argList ms)) of
        Inl e \<Rightarrow> Inl e
      | Inr docs \<Rightarrow>
          (case renderOverloads xmlDoc type nm ms rest of
             Inl e \<Rightarrow> Inl e
           | Inr others \<Rightarrow>
               Inr (xmlDoc @ concat docs
                    @ [signature type nm (overloadedArgs explodedArg (argList ms))]
                    @ (if rest \<noteq> [] then [[]] else []) @ others)))"

text \<open>\<open>containsOptionalExplodedArgs\<close> after the loop: every round assigns it at every marker
  of \<open>args\<close>, so the last marker decides.\<close>

definition containsOptionalExplodedArgs :: "string list \<Rightarrow> bool" where
  "containsOptionalExplodedArgs as =
     (case filter explodedMarker as of
        [] \<Rightarrow> False
      | m # ms \<Rightarrow> last (m # ms) = ''OPTIONAL_EXPLODED_ARG'')"

text \<open>The extra overload without the optional exploded arguments.\<close>

definition renderFiltered ::
    "string list \<Rightarrow> string option \<Rightarrow> string \<Rightarrow> 'd Member \<Rightarrow> 'd MethodState
       \<Rightarrow> error + string list" where
  "renderFiltered xmlDoc type nm member ms =
     (let filteredArgs = filter (\<lambda>x. x \<noteq> ''OPTIONAL_EXPLODED_ARG'') (argList ms) in
      case sequenceE (map (\<lambda>a. if a = ''EXPLODED_ARG'' then
                                   Inl (Error (''Unsupported required union arg combined an ''
                                               @ ''optional union inside '' @ mname member))
                                 else argDoc ms a) filteredArgs) of
        Inl e \<Rightarrow> Inl e
      | Inr docs \<Rightarrow> Inr (xmlDoc @ concat docs @ [signature type nm filteredArgs]))"

text \<open>
  \<open>member.argsArray.sort((a, b) => b.alias === 'options' ? -1 : 0)\<close>: when no argument has
  the alias \<open>options\<close> the comparator is constantly \<open>0\<close> and the (stable) sort leaves the
  array as it is; otherwise the comparator is no ordering and the result is the engine's.
\<close>

definition sortArgs :: "('d, 'j) Env \<Rightarrow> 'd Member list \<Rightarrow> 'd Member list" where
  "sortArgs env as =
     (if Some ''options'' \<in> set (map malias as) then engineSort env as else as)"

definition emptyMethodState :: "'d State \<Rightarrow> 'd MethodState" where
  "emptyMethodState st =
     \<lparr>globals = st, paramDocs = [], argList = [], explodedArgs = [], argTypeMap = []\<rparr>"

text \<open>Two adjustments of \<open>renderMethod\<close> before the arguments are rendered: a method that
  returns \<open>T\<close> becomes generic, and the return type of an asynchronous method is wrapped.\<close>

definition genericName :: "string option \<Rightarrow> string \<Rightarrow> string" where
  "genericName type0 name0 = (if type0 = Some ''T'' then name0 @ ''<T>'' else name0)"

definition asyncReturnType :: "'d Member \<Rightarrow> string option \<Rightarrow> string option" where
  "asyncReturnType member type0 =
     (if async member then
        (if type0 = Some ''void'' then Some ''Task''
         else Some (''Task<'' @ inTemplate type0 @ ''>''))
      else type0)"

text \<open>\<open>renderMethod\<close>: the lines appended to \<open>out\<close> and the registries afterwards.
  \<open>member.args\<close> is the map of the arguments by name, so \<open>member.args.size == 0\<close> says that
  \<open>argsArray\<close> is empty.\<close>

definition renderMethod ::
    "('d, 'j) Env \<Rightarrow> 'd Member \<Rightarrow> Parent \<Rightarrow> string \<Rightarrow> string list \<Rightarrow> 'd State
       \<Rightarrow> error + (string list \<times> 'd State)" where
  "renderMethod env member parent name0 out st =
     (case returnTypeOf env member parent st of
        Inl e \<Rightarrow> Inl e
      | Inr (type0, st1) \<Rightarrow>
          if argsArray member = [] \<and> type0 \<noteq> Some ''void'' \<and> \<not> prefix ''Get'' name0
             \<and> \<not> prefix ''As'' name0 \<and> \<not> async member
          then
            Inr (out @ (if spec member \<noteq> None then renderXmlDoc env (spec member) else [])
                 @ [inTemplate type0 @ '' '' @ name0 @ '' { get; }''], st1)
          else
            (let nm = genericName type0 name0;
                 type = asyncReturnType member type0
             in case processArgs env member parent (sortArgs env (argsArray member))
                       (emptyMethodState st1) of
                  Inl e \<Rightarrow> Inl e
                | Inr ms0 \<Rightarrow>
                    (case insertWaitForAction nm ms0 of
                       Inl e \<Rightarrow> Inl e
                     | Inr ms \<Rightarrow>
                         if explodedArgs ms = [] then
                           (case sequenceE (map (\<lambda>(i, value). printArgDoc i (Some value))
                                              (paramDocs ms)) of
                              Inl e \<Rightarrow> Inl e
                            | Inr docs \<Rightarrow>
                                Inr (out @ renderXmlDoc env (spec member) @ concat docs
                                     @ [signature type nm (argList ms)], globals ms))
                         else
                           (case renderOverloads (renderXmlDoc env (spec member)) type nm ms
                                   (explodedArgs ms) of
                              Inl e \<Rightarrow> Inl e
                            | Inr overloads \<Rightarrow>
                                if containsOptionalExplodedArgs (argList ms) then
                                  (case renderFiltered (renderXmlDoc env (spec member)) type nm
                                          member ms of
                                     Inl e \<Rightarrow> Inl e
                                   | Inr filtered \<Rightarrow>
                                       Inr (out @ overloads @ filtered, globals ms))
                                else Inr (out @ overloads, globals ms)))))"

section \<open>Enum emission\<close>

text \<open>\<open>s.split(sep)\<close> for a one-character separator: always at least one piece.\<close>

fun split :: "char \<Rightarrow> string \<Rightarrow> string list" where
  "split sep [] = [[]]"
| "split sep (c # r) =
     (if c = sep then [] # split sep r
      else (case split sep r of w # ws \<Rightarrow> (c # w) # ws | [] \<Rightarrow> [[c]]))"

text \<open>\<open>literal.replace(/[\"]/g, ``)\<close>: strip out the quotes.\<close>

definition stripQuotes :: "string \<Rightarrow> string" where
  "stripQuotes literal = filter (\<lambda>c. c \<noteq> CHR 0x22) literal"

text \<open>\<open>customTypeNames.get(word) || word[0].toUpperCase() + word.substring(1)\<close>: reading
  \<open>word[0]\<close> of an empty word gives \<open>undefined\<close>, and the call on it is a \<open>TypeError\<close>.\<close>

definition escapeWord :: "string \<Rightarrow> error + string" where
  "escapeWord word =
     (if truthy (map_of customTypeNames word) then Inr (the (map_of customTypeNames word))
      else case word of [] \<Rightarrow> Inl TypeError | c # r \<Rightarrow> Inr (toUpperChar c # r))"

definition escapedName :: "string \<Rightarrow> error + string" where
  "escapedName literal =
     (case sequenceE (map escapeWord
             (split CHR '' '' (map (\<lambda>c. if c = CHR ''-'' then CHR '' '' else c) literal))) of
        Inl e \<Rightarrow> Inl e
      | Inr ws \<Rightarrow> Inr (concat ws))"

text \<open>\<open>renderEnum\<close>: the body lines handed to \<open>writeFile\<close> (writing the file is outside
  the model).\<close>

definition enumMember :: "string \<Rightarrow> error + string list" where
  "enumMember literal0 =
     (let literal = stripQuotes literal0 in
      case escapedName literal of
        Inl e \<Rightarrow> Inl e
      | Inr en \<Rightarrow> Inr [''[EnumMember(Value = \"'' @ literal @ ''\")]'', en @ '',''])"

definition renderEnum :: "string \<Rightarrow> string list \<Rightarrow> error + string list" where
  "renderEnum nm literals =
     (case sequenceE (map enumMember literals) of
        Inl e \<Rightarrow> Inl e
      | Inr ls \<Rightarrow> Inr (''Undefined = 0,'' # concat ls))"

text \<open>The \<open>[EnumMember(Value = "...")]\<close> lines of an enum body: after the first line, every
  other line.\<close>

fun everyOther :: "'a list \<Rightarrow> 'a list" where
  "everyOther (a # b # r) = a # everyOther r"
| "everyOther r = []"

definition enumMemberLines :: "string list \<Rightarrow> string list" where
  "enumMemberLines body = everyOther (tl body)"

section \<open>Shapes named by the specification\<close>

text \<open>The specification's literal-union enum: every variant is a quoted string literal, or
  every variant except a leading null marker is.\<close>

definition quotedLiteral :: "'d Type \<Rightarrow> bool" where
  "quotedLiteral u = prefix ''\"'' (name u)"

definition isLiteralUnion :: "'d Type list \<Rightarrow> bool" where
  "isLiteralUnion us =
     (list_all quotedLiteral us
      \<or> (case us of [] \<Rightarrow> False | u # r \<Rightarrow> name u = ''null'' \<and> list_all quotedLiteral r))"

text \<open>The expressions that \<open>translateType\<close> maps to a fixed target type.\<close>

definition fixedExpressions :: "string list" where
  "fixedExpressions =
     [''[null]|[Error]'', ''[boolean]|\"mixed\"'', ''[string]|[Buffer]'', ''[string]|[float]'',
      ''[string]|[float]|[boolean]'', ''[float]|\"raf\"'']"

definition fixedExpression :: "'d Type \<Rightarrow> bool" where
  "fixedExpression t = (case expression t of None \<Rightarrow> False | Some e \<Rightarrow> e \<in> set fixedExpressions)"

text \<open>The message of the error thrown for an \<open>Array\<close> without exactly one template.\<close>

definition arrayDimensionError :: "'d Type \<Rightarrow> Parent \<Rightarrow> error" where
  "arrayDimensionError t parent =
     Error (''Array ('' @ name t @ '' from '' @ pname parent
            @ '') has more than 1 dimension. Panic.'')"

section \<open>Example inputs\<close>

text \<open>A type that has a name only, as the parser builds for \<open>[string]\<close> or \<open>"load"\<close> nested
  in a larger expression.\<close>

definition simpleType :: "string \<Rightarrow> 'd Type" where
  "simpleType nm = Type nm None None None None None None"

text \<open>A union with a declared name (empty when it has none), an expression and variants.\<close>

definition unionType :: "string \<Rightarrow> string option \<Rightarrow> 'd Type list \<Rightarrow> 'd Type" where
  "unionType nm e us = Type nm e (Some us) None None None None"

definition arrayType :: "string option \<Rightarrow> 'd Type list \<Rightarrow> 'd Type" where
  "arrayType e ts = Type ''Array'' e None (Some ts) None None None"

text \<open>An anonymous object type with its property list, and a member of kind \<open>property\<close>
  (the parser sets a member's alias to its name unless the documentation overrides it).\<close>

definition objectType :: "string option \<Rightarrow> 'd Member list \<Rightarrow> 'd Type" where
  "objectType e ps = Type ''Object'' e None None (Some ps) None None"

definition propertyMember :: "string \<Rightarrow> 'd Type \<Rightarrow> 'd Member" where
  "propertyMember nm ty = Member ''property'' nm (Some nm) True False (Some ty) [] None"

text \<open>Two anonymous object types with different property lists; the argument is the
  expression (\<open>[Object]\<close> for a type parsed on its own, none for a nested type).\<close>

definition widthObject :: "string option \<Rightarrow> unit Type" where
  "widthObject e = objectType e [propertyMember ''width'' (simpleType ''int'')]"

definition labelObject :: "string option \<Rightarrow> unit Type" where
  "labelObject e = objectType e [propertyMember ''label'' (simpleType ''string'')]"

text \<open>An environment for the examples: documentation payloads are strings, rendered as one
  summary line and as one line of text; one documented class; types are compared by their
  property lists themselves.\<close>

definition exampleEnv :: "(string, string Member list option) Env" where
  "exampleEnv =
     \<lparr>renderXmlDoc = (\<lambda>d. case d of None \<Rightarrow> [] | Some x \<Rightarrow> [''/// <summary>'' @ x @ ''</summary>'']),
      renderTextOnly = (\<lambda>d. case d of None \<Rightarrow> [] | Some x \<Rightarrow> [x]),
      classesArray = [''Page''],
      jsonStringify = (\<lambda>ps. ps),
      engineSort = (\<lambda>as. as)\<rparr>"

text \<open>A documented argument and a documented method.\<close>

definition argumentMember :: "string \<Rightarrow> bool \<Rightarrow> string Type \<Rightarrow> string Member" where
  "argumentMember nm req ty =
     Member ''property'' nm (Some nm) req False (Some ty) [] (Some (''The '' @ nm @ ''.''))"

definition methodMember ::
    "string \<Rightarrow> bool \<Rightarrow> string Type \<Rightarrow> string Member list \<Rightarrow> string Member" where
  "methodMember nm asy ty as =
     Member ''method'' nm (Some nm) True asy (Some ty) as (Some (''Calls '' @ nm @ ''.''))"

definition stringOrPath :: "string Type" where
  "stringOrPath = unionType [] (Some ''[string]|[path]'') [simpleType ''string'', simpleType ''path'']"

text \<open>The union of \<open>string\<close> and \<open>number\<close>, without a declared name.\<close>

definition stringOrNumber :: "'d Type" where
  "stringOrNumber =
     unionType [] (Some ''[string]|[number]'') [simpleType ''string'', simpleType ''number'']"

definition page :: Parent where
  "page = Parent ''Page'' None"

section \<open>Null unwrapping\<close>

text \<open>
  Claim C5, as the specification states it: for every non-union type \<open>X\<close>, translating the
  two-variant union \<open>Union[null, X]\<close> returns the same target type as translating \<open>X\<close>.
  The fixed-expression shortcuts are tested before the union is looked at, so the claim fails
  for \<open>X = Error\<close>: the union, whose expression is \<open>[null]|[Error]\<close>, translates to \<open>void\<close>,
  and \<open>Error\<close> alone translates to \<open>Exception\<close>.
\<close>

theorem null_unwrap_Error_counterexample:
  "translateType [] page defaultCallback (initialState :: unit State)
     (unionType [] (Some ''[null]|[Error]'') [simpleType ''null'', simpleType ''Error''])
     = Inr (Some ''void'', initialState)
   \<and> translateType [] page defaultCallback (initialState :: unit State) (simpleType ''Error'')
     = Inr (Some ''Exception'', initialState)"
  by (simp add: translateType.simps unionType_def simpleType_def classNameMap_def mapSet_def
        orElse_def)

text \<open>
  Claim C5, amended: when the union's expression is none of the two fixed-expression shortcuts
  (\<open>[null]|[Error]\<close> and \<open>[boolean]|"mixed"\<close>), translating a two-variant union whose first
  variant is named \<open>null\<close> gives exactly what translating its second variant gives: the same
  target type, the same registries afterwards, or the same error. This holds for every second
  variant, a union too.
\<close>

theorem null_unwrap:
  assumes "expression u \<noteq> Some ''[null]|[Error]''"
    and "expression u \<noteq> Some ''[boolean]|\"mixed\"''"
    and "union u = Some [n, x]"
    and "name n = ''null''"
  shows "translateType classes parent cb st u = translateType classes parent cb st x"
  using assms by (subst translateType.simps) simp

theorem null_unwrap_witness:
  "translateType [] page defaultCallback (initialState :: unit State)
     (unionType [] (Some ''[null]|[string]'') [simpleType ''null'', simpleType ''string''])
   = translateType [] page defaultCallback initialState (simpleType ''string'')"
  using null_unwrap [of "unionType [] (Some ''[null]|[string]'') [simpleType ''null'', simpleType ''string'']"
      "simpleType ''null''" "simpleType ''string''" "[]" page defaultCallback initialState]
  by (simp add: unionType_def simpleType_def)

section \<open>Unions that are no fixed shape\<close>

lemma fixedExpression_iff:
  "\<not> fixedExpression t \<longleftrightarrow>
     expression t \<noteq> Some ''[null]|[Error]'' \<and> expression t \<noteq> Some ''[boolean]|\"mixed\"''
     \<and> expression t \<noteq> Some ''[string]|[Buffer]'' \<and> expression t \<noteq> Some ''[string]|[float]''
     \<and> expression t \<noteq> Some ''[string]|[float]|[boolean]''
     \<and> expression t \<noteq> Some ''[float]|\"raf\"''"
  by (cases "expression t") (auto simp: fixedExpression_def fixedExpressions_def)

text \<open>What \<open>translateType\<close> does with a union that reaches the end of the union branch.\<close>

lemma translateType_union_rest:
  assumes "\<not> fixedExpression t" and "union t = Some us" and "us \<noteq> []"
    and "\<not> (name (us ! 0) = ''null'' \<and> length us = 2)"
    and "unionIsArrayOfFirst us = Inr False"
  shows "translateType classes parent cb st t =
     (if name t \<noteq> [] then
        Inr (Some (name t), st\<lparr>enumTypes := mapSet (name t) (map name us) (enumTypes st)\<rparr>)
      else Inr (None, st))"
proof -
  have e: "expression t \<noteq> Some ''[null]|[Error]''"
      "expression t \<noteq> Some ''[boolean]|\"mixed\"''"
      "expression t \<noteq> Some ''[string]|[Buffer]''"
      "expression t \<noteq> Some ''[string]|[float]''"
      "expression t \<noteq> Some ''[string]|[float]|[boolean]''"
      "expression t \<noteq> Some ''[float]|\"raf\"''"
    using assms(1) unfolding fixedExpression_iff by simp_all
  have n: "(name (us ! 0) = ''null'' \<and> length us = 2) = False"
    using assms(4) by simp
  show ?thesis
    by (subst translateType.simps) (simp add: e assms(2,3,5) n)
qed

text \<open>
  Claim C1, as the specification states it: a union that is no fixed-expression shortcut and
  no fixed two-variant shape translates to its declared name, registered as an enum, if and
  only if every variant is a quoted string literal (or every variant but a leading null
  marker); otherwise \<open>translateType\<close> returns \<open>null\<close>.
  The code never looks at the variants here: it tests whether the union has a name
  (\<open>if (type.name)\<close>, under the comment that enums are named in the markdown). So a named
  union of \<open>string\<close> and \<open>int\<close> is registered as an enum and its name returned, and an unnamed
  union of two quoted literals translates to \<open>null\<close>.
\<close>

theorem translateType_enum_by_name_counterexample:
  "translateType [] page defaultCallback (initialState :: unit State)
     (unionType ''Mixed'' (Some ''[Mixed]<[string]|[int]>'')
        [simpleType ''string'', simpleType ''int''])
     = Inr (Some ''Mixed'',
            initialState\<lparr>enumTypes := [(''MixedState'', [''On'', ''Off'', ''Mixed'']),
                                       (''Mixed'', [''string'', ''int''])]\<rparr>)
   \<and> translateType [] page defaultCallback (initialState :: unit State)
       (unionType [] (Some ''\"a\"|\"b\"'') [simpleType ''\"a\"'', simpleType ''\"b\"''])
     = Inr (None, initialState)"
  by (simp add: translateType.simps unionType_def simpleType_def unionIsArrayOfFirst_def
        mapSet_def initialState_def)

text \<open>
  Claim C1, amended: for every union with at least one variant that matches no fixed
  expression, is not the two-variant shape led by the null marker and is not the shape
  "a type or an array of it", \<open>translateType\<close> returns the union's declared name, after
  setting the enum registry's entry for that name to the names of the variants, if and only
  if the declared name is not empty, whatever the variants are; for a union without a name it
  returns \<open>null\<close> and leaves the registries as they were.
\<close>

theorem translateType_remaining_union:
  assumes "\<not> fixedExpression t" and "union t = Some us" and "us \<noteq> []"
    and "\<not> (name (us ! 0) = ''null'' \<and> length us = 2)"
    and "unionIsArrayOfFirst us = Inr False"
  shows "(name t \<noteq> [] \<longrightarrow>
            translateType classes parent cb st t =
              Inr (Some (name t),
                   st\<lparr>enumTypes := mapSet (name t) (map name us) (enumTypes st)\<rparr>))
       \<and> (name t = [] \<longrightarrow> translateType classes parent cb st t = Inr (None, st))"
  using translateType_union_rest [OF assms] by simp

theorem translateType_remaining_union_witness:
  "translateType [] page defaultCallback (initialState :: unit State)
     (unionType ''Mixed'' None [simpleType ''string'', simpleType ''int''])
     = Inr (Some ''Mixed'',
            initialState\<lparr>enumTypes := [(''MixedState'', [''On'', ''Off'', ''Mixed'']),
                                       (''Mixed'', [''string'', ''int''])]\<rparr>)
   \<and> translateType [] page defaultCallback (initialState :: unit State)
       (unionType [] None [simpleType ''string'', simpleType ''int''])
     = Inr (None, initialState)"
  using translateType_remaining_union
          [of "unionType ''Mixed'' None [simpleType ''string'', simpleType ''int'']"
              "[simpleType ''string'', simpleType ''int'']" "[]" page defaultCallback
              "initialState :: unit State"]
        translateType_remaining_union
          [of "unionType [] None [simpleType ''string'', simpleType ''int'']"
              "[simpleType ''string'', simpleType ''int'']" "[]" page defaultCallback
              "initialState :: unit State"]
  by (simp add: fixedExpression_def unionType_def simpleType_def unionIsArrayOfFirst_def
        mapSet_def initialState_def)

section \<open>Arrays\<close>

text \<open>
  Claim C6, as the specification states it: \<open>translateType\<close> on an \<open>Array\<close> node fails with
  the shape error if and only if the node has more than one template parameter, and with
  exactly one it always succeeds.
  An array of arrays refutes it: the outer node has exactly one template parameter, and its
  translation fails with the shape error that the inner node (two template parameters)
  raises.
\<close>

theorem translateType_Array_nested_counterexample:
  "templates (arrayType (Some ''[Array]<[Array]<[int], [int]>>'')
                [arrayType None [simpleType ''int'', simpleType ''int'']] :: unit Type)
     = Some [arrayType None [simpleType ''int'', simpleType ''int'']]
   \<and> translateType [] page defaultCallback (initialState :: unit State)
       (arrayType (Some ''[Array]<[Array]<[int], [int]>>'')
          [arrayType None [simpleType ''int'', simpleType ''int'']])
     = Inl (Error ''Array (Array from Page) has more than 1 dimension. Panic.'')"
  by (simp add: translateType.simps arrayType_def simpleType_def page_def)

text \<open>
  Claim C6, amended: for an \<open>Array\<close> node that is no union, carries a template list and
  matches no fixed-expression shortcut, \<open>translateType\<close> fails with the array shape error of
  that node whenever the number of its template parameters is not exactly one (none at all
  included); with exactly one template parameter it does what the translation of the element
  type does: it fails with the element's error when that fails, and otherwise returns
  \<open>IEnumerable<...>\<close> around the element's translation (the text \<open>null\<close> when the element
  translates to \<open>null\<close>), with the registries the element's translation left.
\<close>

theorem translateType_Array:
  assumes "expression t \<noteq> Some ''[null]|[Error]''"
    and "expression t \<noteq> Some ''[boolean]|\"mixed\"''"
    and "union t = None" and "name t = ''Array''" and "templates t = Some ts"
  shows "(length ts \<noteq> 1 \<longrightarrow>
            translateType classes parent cb st t = Inl (arrayDimensionError t parent))
       \<and> (length ts = 1 \<longrightarrow>
            translateType classes parent cb st t =
              (case translateType classes parent cb st (hd ts) of
                 Inl e \<Rightarrow> Inl e
               | Inr (inner, st1) \<Rightarrow>
                   Inr (Some (''IEnumerable<'' @ inTemplate inner @ ''>''), st1)))"
proof -
  have u: "translateType classes parent cb st t =
      (if length ts \<noteq> 1 then Inl (arrayDimensionError t parent)
       else case translateType classes parent cb st (ts ! 0) of
          Inl e \<Rightarrow> Inl e
        | Inr (inner, st1) \<Rightarrow> Inr (Some (''IEnumerable<'' @ inTemplate inner @ ''>''), st1))"
    by (subst translateType.simps) (simp add: assms arrayDimensionError_def)
  have "length ts = 1 \<Longrightarrow> hd ts = ts ! 0"
    by (cases ts) simp_all
  then show ?thesis
    unfolding u by simp
qed

theorem translateType_Array_witness:
  "translateType [] page defaultCallback (initialState :: unit State)
       (arrayType (Some ''[Array]<[string]>'') [simpleType ''string''])
     = Inr (Some ''IEnumerable<string>'', initialState)
   \<and> translateType [] page defaultCallback (initialState :: unit State)
       (arrayType (Some ''[Array]<[int], [int]>'') [simpleType ''int'', simpleType ''int''])
     = Inl (Error ''Array (Array from Page) has more than 1 dimension. Panic.'')"
  using translateType_Array
          [of "arrayType (Some ''[Array]<[string]>'') [simpleType ''string'']"
              "[simpleType ''string'']" "[]" page defaultCallback "initialState :: unit State"]
        translateType_Array
          [of "arrayType (Some ''[Array]<[int], [int]>'') [simpleType ''int'', simpleType ''int'']"
              "[simpleType ''int'', simpleType ''int'']" "[]" page defaultCallback
              "initialState :: unit State"]
  by (simp add: arrayType_def simpleType_def translateType.simps classNameMap_def mapSet_def
        orElse_def inTemplate_def arrayDimensionError_def page_def)

section \<open>Literal unions and the enum registry\<close>

lemma literal_union_no_array_shape:
  assumes "isLiteralUnion us" and "\<not> (name (us ! 0) = ''null'' \<and> length us = 2)"
  shows "unionIsArrayOfFirst us = Inr False"
proof (cases "length us = 2")
  case False
  then show ?thesis by (simp add: unionIsArrayOfFirst_def)
next
  case True
  then obtain a b where us: "us = [a, b]"
    by (cases us; cases "tl us") auto
  with assms have "quotedLiteral b"
    by (auto simp: isLiteralUnion_def)
  then have "name b \<noteq> ''Array''"
    by (auto simp: quotedLiteral_def)
  then show ?thesis
    by (simp add: unionIsArrayOfFirst_def us)
qed

text \<open>\<open>renderEnum\<close> writes one \<open>EnumMember\<close> line per literal, in the order of the registry
  entry, with the quotes stripped.\<close>

lemma sequenceE_enumMember_lines:
  "sequenceE (map enumMember lits) = Inr ls \<Longrightarrow>
     everyOther (concat ls) = map (\<lambda>l. ''[EnumMember(Value = \"'' @ stripQuotes l @ ''\")]'') lits"
proof (induction lits arbitrary: ls)
  case Nil
  then show ?case by simp
next
  case (Cons l lits)
  then show ?case
    by (auto simp: enumMember_def Let_def split: sum.splits)
qed

lemma renderEnum_lines:
  "renderEnum nm lits = Inr body \<Longrightarrow>
     enumMemberLines body = map (\<lambda>l. ''[EnumMember(Value = \"'' @ stripQuotes l @ ''\")]'') lits"
  by (auto simp: renderEnum_def enumMemberLines_def sequenceE_enumMember_lines split: sum.splits)

text \<open>
  Claim C3, as the specification states it: translating any union whose variants are all
  quoted string literals, optionally preceded by a null marker, creates an enum-registry entry
  with the de-quoted variant names in declared order, and translating it again changes nothing.
  The null unwrap comes first in \<open>translateType\<close>: the named union of the null marker and one
  literal is translated as that literal alone, and no registry entry is made.
\<close>

theorem translateType_null_literal_pair_counterexample:
  "translateType [] page defaultCallback (initialState :: unit State)
     (unionType ''E'' (Some ''[E]<[null]|\"a\">'') [simpleType ''null'', simpleType ''\"a\"''])
     = Inr (Some ''\"a\"'', initialState)
   \<and> map_of (enumTypes (initialState :: unit State)) ''E'' = None"
  by (simp add: translateType.simps unionType_def simpleType_def classNameMap_def mapSet_def
        orElse_def initialState_def)

text \<open>
  Claim C3, amended: for a union with a declared name whose variants are all quoted string
  literals, optionally preceded by a null marker, that matches no fixed expression and is not
  the two-variant union led by the null marker, translating it returns the declared name and
  sets the enum registry's entry under that name to the names of all variants in declared
  order, exactly as written (quotes kept; a leading null marker is kept as a literal too); the
  enum emitted from that entry has one \<open>EnumMember\<close> value per variant, in that order, each the
  variant's name without the quotes; translating the union again returns the same name and
  leaves the registries as they are, and the registry's keys stay distinct.
\<close>

theorem literal_union_enum:
  assumes "\<not> fixedExpression t" and "union t = Some us" and "us \<noteq> []"
    and "isLiteralUnion us"
    and "\<not> (name (us ! 0) = ''null'' \<and> length us = 2)"
    and "name t \<noteq> []"
  shows "let st' = st\<lparr>enumTypes := mapSet (name t) (map name us) (enumTypes st)\<rparr> in
           translateType classes parent cb st t = Inr (Some (name t), st')
         \<and> map_of (enumTypes st') (name t) = Some (map name us)
         \<and> (\<forall>body. renderEnum (name t) (map name us) = Inr body \<longrightarrow>
               enumMemberLines body =
                 map (\<lambda>u. ''[EnumMember(Value = \"'' @ stripQuotes (name u) @ ''\")]'') us)
         \<and> translateType classes parent cb st' t = Inr (Some (name t), st')
         \<and> (distinct (map fst (enumTypes st)) \<longrightarrow> distinct (map fst (enumTypes st')))"
proof -
  have a: "unionIsArrayOfFirst us = Inr False"
    using assms(4,5) by (rule literal_union_no_array_shape)
  have tr: "translateType classes parent cb s t =
      Inr (Some (name t), s\<lparr>enumTypes := mapSet (name t) (map name us) (enumTypes s)\<rparr>)" for s
    using translateType_union_rest [OF assms(1,2,3,5) a] assms(6) by simp
  have r: "renderEnum (name t) (map name us) = Inr body \<Longrightarrow>
               enumMemberLines body =
                 map (\<lambda>u. ''[EnumMember(Value = \"'' @ stripQuotes (name u) @ ''\")]'') us" for body
    by (drule renderEnum_lines) (simp add: comp_def)
  show ?thesis
    unfolding Let_def
    by (intro conjI allI impI) (simp_all add: tr r mapSet_def update_conv' distinct_update)
qed

theorem literal_union_enum_witness:
  "translateType [] page defaultCallback (initialState :: unit State)
     (unionType ''LoadState'' (Some ''[LoadState]<\"load\"|\"networkidle\">'')
        [simpleType ''\"load\"'', simpleType ''\"networkidle\"''])
     = Inr (Some ''LoadState'',
            initialState\<lparr>enumTypes := [(''MixedState'', [''On'', ''Off'', ''Mixed'']),
                                       (''LoadState'', [''\"load\"'', ''\"networkidle\"''])]\<rparr>)
   \<and> renderEnum ''LoadState'' [''\"load\"'', ''\"networkidle\"'']
     = Inr [''Undefined = 0,'', ''[EnumMember(Value = \"load\")]'', ''Load,'',
            ''[EnumMember(Value = \"networkidle\")]'', ''NetworkIdle,'']
   \<and> enumMemberLines [''Undefined = 0,'', ''[EnumMember(Value = \"load\")]'', ''Load,'',
            ''[EnumMember(Value = \"networkidle\")]'', ''NetworkIdle,'']
     = [''[EnumMember(Value = \"load\")]'', ''[EnumMember(Value = \"networkidle\")]'']"
  using literal_union_enum
          [of "unionType ''LoadState'' (Some ''[LoadState]<\"load\"|\"networkidle\">'')
                 [simpleType ''\"load\"'', simpleType ''\"networkidle\"'']"
              "[simpleType ''\"load\"'', simpleType ''\"networkidle\"'']"
              "initialState :: unit State" "[]" page defaultCallback]
  by (simp add: fixedExpression_def fixedExpressions_def unionType_def simpleType_def
        isLiteralUnion_def quotedLiteral_def mapSet_def initialState_def Let_def
        renderEnum_def enumMember_def escapedName_def escapeWord_def stripQuotes_def
        customTypeNames_def truthy_def toUpperChar_def enumMemberLines_def)

section \<open>The model-type registry and the name synthesizer\<close>

lemma typesDiffer_sym: "typesDiffer s a b = typesDiffer s b a"
  by (auto simp: typesDiffer_def)

text \<open>A name returned by the loop is registered with the type that asked for it, and what
  was stored under it before did not differ according to \<open>typesDiffer\<close>.\<close>

lemma nameLoop_result:
  "nameLoop s t mts names a = Inr (res, mts') \<Longrightarrow>
     mts' = mapSet res t mts
     \<and> (case map_of mts res of Some old \<Rightarrow> \<not> typesDiffer s t old | None \<Rightarrow> True)"
proof (induction s t mts names a rule: nameLoop.induct)
  case (1 s t mts names a0)
  show ?case
    using "1.prems" "1.IH"
    by (subst (asm) nameLoop.simps) (auto simp: Let_def split: if_splits option.splits)
qed

lemma nameLoop_accept:
  assumes "c = applyCustomName (stripPlural cand)" and "c \<noteq> ''Value''"
    and "case map_of mts c of Some old \<Rightarrow> \<not> typesDiffer s t old | None \<Rightarrow> True"
  shows "nameLoop s t mts names cand = Inr (c, mapSet c t mts)"
  using assms by (subst nameLoop.simps) (auto simp: Let_def split: option.splits)

lemma nameLoop_conflict:
  assumes "c = applyCustomName (stripPlural cand)" and "map_of mts c = Some old"
    and "typesDiffer s t old" and "names \<noteq> []"
  shows "nameLoop s t mts names cand = nameLoop s t mts (butlast names) (last names @ c)"
  using assms by (subst nameLoop.simps) (auto simp: Let_def split: option.splits)

lemma registerModelType_keeps:
  "map_of (modelTypes st) n = Some ty \<Longrightarrow>
     map_of (modelTypes (registerModelType nm t st)) n = Some ty"
  by (auto simp: registerModelType_def mapSet_def update_conv' split: option.splits)

lemma generateNameDefault_cases:
  assumes "generateNameDefault s member nm parent st t = Inr (res, st')"
  shows "st' = st
       \<or> (\<exists>names a mts'. nameLoop s t (modelTypes st) names a = Inr (res, mts')
                          \<and> st' = st\<lparr>modelTypes := mts'\<rparr>)"
proof (cases member)
  case None
  with assms show ?thesis
    by (simp add: generateNameDefault_def Let_def split: if_splits)
next
  case (Some m)
  show ?thesis
  proof (cases "nameLoop s t (modelTypes st) (butlast (candidateNames parent m nm))
                  (last (candidateNames parent m nm))")
    case (Inl e)
    with assms Some show ?thesis
      by (simp add: generateNameDefault_def Let_def split: if_splits)
  next
    case (Inr r)
    obtain a mts where r: "r = (a, mts)" by (cases r)
    from assms Some Inr r show ?thesis
      by (simp add: generateNameDefault_def Let_def split: if_splits) blast
  qed
qed

lemma generateNameDefault_keeps:
  assumes "generateNameDefault s member nm parent st t = Inr (res, st')"
    and "map_of (modelTypes st) n = Some ty"
  shows "map_of (modelTypes st') n = Some ty
       \<or> (n = res \<and> map_of (modelTypes st') n = Some t \<and> \<not> typesDiffer s t ty)"
proof (cases "st' = st")
  case True
  with assms(2) show ?thesis by simp
next
  case False
  with generateNameDefault_cases [OF assms(1)] obtain names a mts' where
      l: "nameLoop s t (modelTypes st) names a = Inr (res, mts')" and
      st': "st' = st\<lparr>modelTypes := mts'\<rparr>"
    by blast
  from nameLoop_result [OF l] have
      m: "mts' = mapSet res t (modelTypes st)" and
      d: "case map_of (modelTypes st) res of Some old \<Rightarrow> \<not> typesDiffer s t old | None \<Rightarrow> True"
    by simp_all
  show ?thesis
  proof (cases "n = res")
    case True
    with d assms(2) have "\<not> typesDiffer s t ty" by simp
    with True show ?thesis
      by (simp add: st' m mapSet_def update_conv')
  next
    case False
    with assms(2) show ?thesis
      by (simp add: st' m mapSet_def update_conv')
  qed
qed

text \<open>
  What the two writers of the model-type registry keep: \<open>registerModelType\<close> leaves every
  existing entry as it is and registers nothing under \<open>object\<close>, \<open>string\<close> or \<open>int\<close>; the
  name synthesizer leaves every existing entry as it is, except that it stores the type being
  named under the name it returns, and it returns a name that exists only when \<open>typesDiffer\<close>
  finds the new type no different from the stored one.
\<close>

lemma registry_entries_kept:
  "(\<forall>n ty. map_of (modelTypes st) n = Some ty \<longrightarrow>
       map_of (modelTypes (registerModelType nm t st)) n = Some ty)
   \<and> (nm \<in> set [''object'', ''string'', ''int''] \<longrightarrow> registerModelType nm t st = st)
   \<and> (\<forall>res st' n ty.
         generateNameDefault stringify member nm' parent st t = Inr (res, st')
         \<and> map_of (modelTypes st) n = Some ty \<longrightarrow>
           map_of (modelTypes st') n = Some ty
           \<or> (n = res \<and> map_of (modelTypes st') n = Some t \<and> \<not> typesDiffer stringify t ty))"
proof (intro conjI allI impI)
  fix n ty
  assume "map_of (modelTypes st) n = Some ty"
  then show "map_of (modelTypes (registerModelType nm t st)) n = Some ty"
    by (rule registerModelType_keeps)
next
  assume "nm \<in> set [''object'', ''string'', ''int'']"
  then show "registerModelType nm t st = st"
    by (simp add: registerModelType_def)
next
  fix res st' n ty
  assume "generateNameDefault stringify member nm' parent st t = Inr (res, st')
          \<and> map_of (modelTypes st) n = Some ty"
  then show "map_of (modelTypes st') n = Some ty
           \<or> (n = res \<and> map_of (modelTypes st') n = Some t \<and> \<not> typesDiffer stringify t ty)"
    using generateNameDefault_keeps by blast
qed

lemma registry_entries_kept_example:
  "map_of (modelTypes (registerModelType ''Config'' (labelObject None)
             (initialState\<lparr>modelTypes := [(''Config'', widthObject None)]\<rparr>))) ''Config''
     = Some (widthObject None)
   \<and> registerModelType ''string'' (labelObject None) initialState = initialState
   \<and> generateNameDefault (\<lambda>ps. ps) (Some (propertyMember ''config'' (labelObject None)))
        ''Config'' (Parent ''Beta'' None)
        (initialState\<lparr>modelTypes := [(''Config'', widthObject None)]\<rparr>) (labelObject None)
     = Inr (''BetaConfig'',
            initialState\<lparr>modelTypes := [(''Config'', widthObject None),
                                        (''BetaConfig'', labelObject None)]\<rparr>)"
  using registry_entries_kept
          [of "initialState\<lparr>modelTypes := [(''Config'', widthObject None)]\<rparr>"
              "''Config''" "labelObject None" "\<lambda>ps. ps"
              "Some (propertyMember ''config'' (labelObject None))" "''Config''"
              "Parent ''Beta'' None"]
        registry_entries_kept
          [of "initialState" "''string''" "labelObject None" "\<lambda>ps. ps" None "''Config''"
              "Parent ''Beta'' None"]
  by (simp add: generateNameDefault_def generateEnumNameIfApplicable_def candidateNames_def
        widthObject_def labelObject_def objectType_def propertyMember_def simpleType_def
        truthy_def orElse_def toTitleCase_def capitalize_def toUpperChar_def nameLoop.simps
        stripPlural_def applyCustomName_def customTypeNames_def typesDiffer_def mapSet_def
        initialState_def Let_def suffix_to_prefix registerModelType_def)

text \<open>
  Claim C9: no operation on the model-type registry replaces an entry by a structurally
  different type; \<open>registerModelType\<close> skips a name that exists (and the names \<open>object\<close>,
  \<open>string\<close>, \<open>int\<close>), and the name synthesizer registers an existing name again only for a
  structurally identical type.
  \<open>registerModelType\<close> does so. The name synthesizer does not: \<open>typesDiffer\<close> compares two
  types by their expressions alone when both have one, and two object types parsed on their
  own both have the expression \<open>[Object]\<close>, whatever their properties. The argument
  \<open>position\<close> of the method \<open>click\<close>, with the property \<open>label\<close>, takes over the entry
  \<open>Position\<close> that an earlier argument with the property \<open>width\<close> made, and both arguments
  are given the type name \<open>Position\<close>.
\<close>

theorem registry_entry_replaced:
  "map_of (modelTypes (initialState\<lparr>modelTypes := [(''Position'', widthObject (Some ''[Object]''))]\<rparr>))
      ''Position'' = Some (widthObject (Some ''[Object]''))
   \<and> generateNameDefault (\<lambda>ps. ps)
       (Some (Member ''method'' ''click'' (Some ''click'') True True (Some (simpleType ''void''))
                [Member ''property'' ''position'' (Some ''position'') False False
                   (Some (labelObject (Some ''[Object]''))) [] None] None))
       ''position'' page
       (initialState\<lparr>modelTypes := [(''Position'', widthObject (Some ''[Object]''))]\<rparr>)
       (labelObject (Some ''[Object]''))
     = Inr (''Position'',
            initialState\<lparr>modelTypes := [(''Position'', labelObject (Some ''[Object]''))]\<rparr>)
   \<and> properties (labelObject (Some ''[Object]'')) \<noteq> properties (widthObject (Some ''[Object]''))"
  by (simp add: generateNameDefault_def generateEnumNameIfApplicable_def candidateNames_def
        widthObject_def labelObject_def objectType_def propertyMember_def simpleType_def
        truthy_def orElse_def toTitleCase_def capitalize_def toUpperChar_def nameLoop.simps
        stripPlural_def applyCustomName_def customTypeNames_def typesDiffer_def mapSet_def
        initialState_def Let_def suffix_to_prefix page_def)

text \<open>The same comparison names the property \<open>config\<close> of two classes: both object types
  are called \<open>Config\<close>, and the second takes the registry entry from the first.\<close>

lemma same_expression_same_name:
  "generateNameDefault (\<lambda>ps. ps)
      (Some (propertyMember ''config'' (widthObject (Some ''[Object]''))))
      ''Config'' (Parent ''Alpha'' None) initialState (widthObject (Some ''[Object]''))
     = Inr (''Config'',
            initialState\<lparr>modelTypes := [(''Config'', widthObject (Some ''[Object]''))]\<rparr>)
   \<and> generateNameDefault (\<lambda>ps. ps)
      (Some (propertyMember ''config'' (labelObject (Some ''[Object]''))))
      ''Config'' (Parent ''Beta'' None)
      (initialState\<lparr>modelTypes := [(''Config'', widthObject (Some ''[Object]''))]\<rparr>)
      (labelObject (Some ''[Object]''))
     = Inr (''Config'',
            initialState\<lparr>modelTypes := [(''Config'', labelObject (Some ''[Object]''))]\<rparr>)
   \<and> properties (widthObject (Some ''[Object]'')) \<noteq> properties (labelObject (Some ''[Object]''))"
  by (simp add: generateNameDefault_def generateEnumNameIfApplicable_def candidateNames_def
        widthObject_def labelObject_def objectType_def propertyMember_def simpleType_def
        truthy_def orElse_def toTitleCase_def capitalize_def toUpperChar_def nameLoop.simps
        stripPlural_def applyCustomName_def customTypeNames_def typesDiffer_def mapSet_def
        initialState_def Let_def suffix_to_prefix)

text \<open>
  Claim C4, as the specification states it: of two structurally different anonymous object
  types named under the same candidate name, the first translated receives and keeps the
  plain candidate name and the second gets that name with the next outer element of the
  lexical chain in front; with the order swapped the other type gets the plain name.
  The loop never accepts the reserved name \<open>Value\<close>: for the property \<open>value\<close> of two
  classes \<open>Alpha\<close> and \<open>Beta\<close> the candidate is \<open>Value\<close>, the first type translated is named
  \<open>AlphaValue\<close> and the second \<open>BetaValue\<close>; neither receives the plain candidate name, in
  either order.
\<close>

theorem reserved_candidate_name_counterexample:
  "generateNameDefault (\<lambda>ps. ps) (Some (propertyMember ''value'' (widthObject None)))
      ''Value'' (Parent ''Alpha'' None) initialState (widthObject None)
     = Inr (''AlphaValue'', initialState\<lparr>modelTypes := [(''AlphaValue'', widthObject None)]\<rparr>)
   \<and> generateNameDefault (\<lambda>ps. ps) (Some (propertyMember ''value'' (labelObject None)))
      ''Value'' (Parent ''Beta'' None)
      (initialState\<lparr>modelTypes := [(''AlphaValue'', widthObject None)]\<rparr>) (labelObject None)
     = Inr (''BetaValue'',
            initialState\<lparr>modelTypes := [(''AlphaValue'', widthObject None),
                                        (''BetaValue'', labelObject None)]\<rparr>)"
  by (simp add: generateNameDefault_def generateEnumNameIfApplicable_def candidateNames_def
        widthObject_def labelObject_def objectType_def propertyMember_def simpleType_def
        truthy_def orElse_def toTitleCase_def capitalize_def toUpperChar_def nameLoop.simps
        stripPlural_def applyCustomName_def customTypeNames_def typesDiffer_def mapSet_def
        initialState_def Let_def suffix_to_prefix)

text \<open>
  Claim C4, amended: let two types be told apart by \<open>typesDiffer\<close> (different expressions
  when both carry one, different serialized property lists otherwise), and let both be named
  from the same candidate, whose normal form \<open>c\<close> (one trailing \<open>s\<close> stripped, alias override
  applied) is not the reserved name \<open>Value\<close> and is not yet in the model-type registry. Then
  the type translated first receives \<open>c\<close> and keeps the registry entry \<open>c\<close>, and the type
  translated second receives the normal form of its next outer lexical-chain element put in
  front of \<open>c\<close>, provided that name is free, is not \<open>Value\<close> and is not \<open>c\<close> itself. With the
  order of translation swapped the roles swap: the other type receives \<open>c\<close>.
\<close>

theorem order_dependent_names:
  assumes "typesDiffer stringify tA tB"
    and "c = applyCustomName (stripPlural cand)" and "c \<noteq> ''Value''"
    and "map_of mts c = None"
    and "namesA \<noteq> []" and "namesB \<noteq> []"
    and "cA = applyCustomName (stripPlural (last namesA @ c))"
    and "cB = applyCustomName (stripPlural (last namesB @ c))"
    and "cA \<noteq> ''Value''" and "cA \<noteq> c" and "map_of mts cA = None"
    and "cB \<noteq> ''Value''" and "cB \<noteq> c" and "map_of mts cB = None"
  shows "nameLoop stringify tA mts namesA cand = Inr (c, mapSet c tA mts)
       \<and> nameLoop stringify tB (mapSet c tA mts) namesB cand
           = Inr (cB, mapSet cB tB (mapSet c tA mts))
       \<and> map_of (mapSet cB tB (mapSet c tA mts)) c = Some tA
       \<and> nameLoop stringify tB mts namesB cand = Inr (c, mapSet c tB mts)
       \<and> nameLoop stringify tA (mapSet c tB mts) namesA cand
           = Inr (cA, mapSet cA tA (mapSet c tB mts))
       \<and> map_of (mapSet cA tA (mapSet c tB mts)) c = Some tB"
proof -
  have first: "nameLoop stringify t mts names cand = Inr (c, mapSet c t mts)" for t names
    using assms(2,3,4) by (intro nameLoop_accept) simp_all
  have second: "nameLoop stringify t (mapSet c t' mts) names cand
                  = Inr (c', mapSet c' t (mapSet c t' mts))"
    if "typesDiffer stringify t t'" "names \<noteq> []"
       "c' = applyCustomName (stripPlural (last names @ c))"
       "c' \<noteq> ''Value''" "c' \<noteq> c" "map_of mts c' = None"
    for t t' names c'
  proof -
    have "nameLoop stringify t (mapSet c t' mts) names cand
            = nameLoop stringify t (mapSet c t' mts) (butlast names) (last names @ c)"
      using assms(2) that(1,2)
      by (intro nameLoop_conflict [where old = t']) (simp_all add: mapSet_def update_conv')
    also have "\<dots> = Inr (c', mapSet c' t (mapSet c t' mts))"
      using that(3,4,5,6)
      by (intro nameLoop_accept) (simp_all add: mapSet_def update_conv')
    finally show ?thesis .
  qed
  have keep: "map_of (mapSet c' t (mapSet c t' mts)) c = Some t'" if "c' \<noteq> c" for c' t t'
    using that by (simp add: mapSet_def update_conv')
  show ?thesis
    using first [of tA namesA] first [of tB namesB]
      second [of tB tA namesB cB] second [of tA tB namesA cA]
      keep [of cB tB tA] keep [of cA tA tB] assms
    by (simp add: typesDiffer_sym [of stringify tB tA])
qed

theorem order_dependent_names_witness:
  "nameLoop (\<lambda>ps. ps) (widthObject None) [] [''Alpha''] ''Config''
     = Inr (''Config'', [(''Config'', widthObject None)])
   \<and> nameLoop (\<lambda>ps. ps) (labelObject None) [(''Config'', widthObject None)] [''Beta''] ''Config''
     = Inr (''BetaConfig'', [(''Config'', widthObject None), (''BetaConfig'', labelObject None)])
   \<and> nameLoop (\<lambda>ps. ps) (labelObject None) [] [''Beta''] ''Config''
     = Inr (''Config'', [(''Config'', labelObject None)])
   \<and> nameLoop (\<lambda>ps. ps) (widthObject None) [(''Config'', labelObject None)] [''Alpha''] ''Config''
     = Inr (''AlphaConfig'', [(''Config'', labelObject None), (''AlphaConfig'', widthObject None)])"
  using order_dependent_names
          [of "\<lambda>ps. ps" "widthObject None" "labelObject None" "''Config''" "''Config''"
              "[]" "[''Alpha'']" "[''Beta'']" "''AlphaConfig''" "''BetaConfig''"]
  by (simp add: widthObject_def labelObject_def objectType_def propertyMember_def simpleType_def
        truthy_def stripPlural_def applyCustomName_def customTypeNames_def typesDiffer_def
        mapSet_def suffix_to_prefix)

section \<open>Arguments of a method\<close>

lemma processArg_string_or_path:
  assumes "mtype arg = Some ty" and "expression ty = Some ''[string]|[path]''"
    and "mname arg \<noteq> ''options''"
  shows "processArg env member parent arg ms =
     (let argName = toArgumentName (mname arg);
          ms1 = pushArg (Some ''string'') (argName @ '' = null'') arg False ms;
          ms2 = pushArg (Some ''string'') (argName @ ''Path = null'') arg False ms1
      in if spec arg \<noteq> None then
           (case addParamsDoc argName (renderTextOnly env (spec arg)) ms2 of
              Inl e \<Rightarrow> Inl e
            | Inr ms3 \<Rightarrow>
                addParamsDoc (argName @ ''Path'')
                  [''Instead of specifying <paramref name=\"'' @ argName
                   @ ''\"/>, gives the file name to load from.''] ms3)
         else Inr ms2)"
  by (subst processArg.simps) (simp add: assms)

lemma addParamsDoc_keeps:
  "addParamsDoc k d ms = Inr ms' \<Longrightarrow>
     argList ms' = argList ms \<and> explodedArgs ms' = explodedArgs ms \<and> globals ms' = globals ms
     \<and> argTypeMap ms' = argTypeMap ms"
  by (auto simp: addParamsDoc_def Let_def split: option.splits)

lemma pushArg_string:
  "pushArg (Some ''string'') n arg False ms =
     ms\<lparr>argList := argList ms @ [''string '' @ n @ (if required arg then [] else '' = default'')],
        argTypeMap := mapSet (''string '' @ n @ (if required arg then [] else '' = default'')) n
                        (argTypeMap ms)\<rparr>"
  by (simp add: pushArg_def nullableTypes_def inTemplate_def Let_def)

lemma docKey_Path: "docKey (a @ ''Path'') = docKey a @ ''Path''"
  by (cases a) (auto simp: docKey_def)

text \<open>
  What \<open>processArg\<close> does with an argument of the expression \<open>[string]|[path]\<close> (not the
  argument named \<open>options\<close>, whose properties it flattens before it looks at the type):
  whenever it returns, it has appended exactly the two parameters \<open>string name = null\<close> and
  \<open>string namePath = null\<close> (each followed by \<open>= default\<close> when the argument is optional)
  to the argument list and nothing to the exploded arguments, and has not touched the
  registries; and it does return when the argument has no documentation or the two
  documentation keys are free (otherwise the run aborts on the duplicate key).
\<close>

lemma processArg_string_or_path_pushes:
  assumes "mtype arg = Some ty" and "expression ty = Some ''[string]|[path]''"
    and "mname arg \<noteq> ''options''"
  shows "(\<forall>ms'. processArg env member parent arg ms = Inr ms' \<longrightarrow>
            argList ms' = argList ms @
               [''string '' @ toArgumentName (mname arg) @ '' = null''
                  @ (if required arg then [] else '' = default''),
                ''string '' @ toArgumentName (mname arg) @ ''Path = null''
                  @ (if required arg then [] else '' = default'')]
            \<and> explodedArgs ms' = explodedArgs ms \<and> globals ms' = globals ms)
       \<and> (spec arg = None
            \<or> map_of (paramDocs ms) (docKey (toArgumentName (mname arg))) = None
              \<and> map_of (paramDocs ms) (docKey (toArgumentName (mname arg) @ ''Path'')) = None
           \<longrightarrow> (\<exists>ms'. processArg env member parent arg ms = Inr ms'))"
proof (rule conjI; intro allI impI)
  fix ms'
  assume "processArg env member parent arg ms = Inr ms'"
  then show "argList ms' = argList ms @
               [''string '' @ toArgumentName (mname arg) @ '' = null''
                  @ (if required arg then [] else '' = default''),
                ''string '' @ toArgumentName (mname arg) @ ''Path = null''
                  @ (if required arg then [] else '' = default'')]
            \<and> explodedArgs ms' = explodedArgs ms \<and> globals ms' = globals ms"
    unfolding processArg_string_or_path [OF assms] Let_def pushArg_string
    by (auto split: sum.splits if_splits dest!: addParamsDoc_keeps)
next
  assume "spec arg = None
            \<or> map_of (paramDocs ms) (docKey (toArgumentName (mname arg))) = None
              \<and> map_of (paramDocs ms) (docKey (toArgumentName (mname arg) @ ''Path'')) = None"
  then show "\<exists>ms'. processArg env member parent arg ms = Inr ms'"
    unfolding processArg_string_or_path [OF assms] Let_def pushArg_string
    by (auto simp: addParamsDoc_def Let_def mapSet_def update_conv' docKey_Path)
qed

section \<open>Methods without arguments\<close>

lemma exampleEnv_simps:
  "renderXmlDoc exampleEnv d = (case d of None \<Rightarrow> [] | Some x \<Rightarrow> [''/// <summary>'' @ x @ ''</summary>''])"
  "renderTextOnly exampleEnv d = (case d of None \<Rightarrow> [] | Some x \<Rightarrow> [x])"
  "classesArray exampleEnv = [''Page'']"
  "jsonStringify exampleEnv = (\<lambda>ps. ps)"
  "engineSort exampleEnv as = as"
  by (simp_all add: exampleEnv_def)

lemma insertWaitForAction_empty:
  "insertWaitForAction nm
     \<lparr>globals = st, paramDocs = [], argList = [], explodedArgs = [], argTypeMap = []\<rparr> =
     (if includesStr ''WaitFor'' nm \<and> nm \<notin> set waitForExclusions then
        Inr \<lparr>globals = st, paramDocs = [(''action'', [''Action to perform while waiting''])],
             argList = [actionArg], explodedArgs = [],
             argTypeMap = [(actionArg, ''action'')]\<rparr>
      else Inr \<lparr>globals = st, paramDocs = [], argList = [], explodedArgs = [],
                 argTypeMap = []\<rparr>)"
  by (simp add: insertWaitForAction_def indexOf_def spliceInsert_def
        addParamsDoc_def docKey_def mapSet_def Let_def)

text \<open>
  Claim C7: a method without arguments whose translated return type is not \<open>void\<close> renders,
  when it is synchronous and its display name starts with neither \<open>Get\<close> nor \<open>As\<close>, as the
  single read-only property declaration \<open>type name { get; }\<close> (after its documentation);
  marked asynchronous it renders as one method signature whose return type is
  \<open>Task<type>\<close>, never as a property. (The signature has no parameter, except for the
  \<open>action\<close> parameter that every \<open>WaitFor\<close> method receives; a return type \<open>T\<close> makes the
  method generic.)
\<close>

theorem zero_argument_method:
  assumes "returnTypeOf env member parent st = Inr (type0, st1)"
    and "argsArray member = []" and "type0 \<noteq> Some ''void''"
  shows "(\<not> async member \<and> \<not> prefix ''Get'' name0 \<and> \<not> prefix ''As'' name0 \<longrightarrow>
            renderMethod env member parent name0 out st =
              Inr (out @ (if spec member \<noteq> None then renderXmlDoc env (spec member) else [])
                   @ [inTemplate type0 @ '' '' @ name0 @ '' { get; }''], st1))
       \<and> (async member \<longrightarrow>
            renderMethod env member parent name0 out st =
              (let nm = (if type0 = Some ''T'' then name0 @ ''<T>'' else name0);
                   waits = (includesStr ''WaitFor'' nm \<and> nm \<notin> set waitForExclusions)
               in Inr (out @ renderXmlDoc env (spec member)
                       @ (if waits then paramLines ''action'' [''Action to perform while waiting'']
                          else [])
                       @ [signature (Some (''Task<'' @ inTemplate type0 @ ''>'')) nm
                            (if waits then [actionArg] else [])], st1)))"
  using assms
  by (simp add: renderMethod_def sortArgs_def insertWaitForAction_empty Let_def printArgDoc_def
        emptyMethodState_def genericName_def asyncReturnType_def)

theorem zero_argument_method_witness:
  "renderMethod exampleEnv (methodMember ''title'' False (simpleType ''string'') []) page
      ''Title'' [] initialState
     = Inr ([''/// <summary>Calls title.</summary>'', ''string Title { get; }''], initialState)
   \<and> renderMethod exampleEnv (methodMember ''title'' True (simpleType ''string'') []) page
      ''TitleAsync'' [] initialState
     = Inr ([''/// <summary>Calls title.</summary>'', ''Task<string> TitleAsync();''],
            initialState)"
proof -
  have rt: "returnTypeOf exampleEnv (methodMember ''title'' a (simpleType ''string'') []) page
              initialState = Inr (Some ''string'', initialState)" for a
    by (simp add: returnTypeOf_def methodMember_def simpleType_def resolveType_def
          translateType.simps truthy_def classNameMap_def mapSet_def orElse_def
          exampleEnv_simps toTitleCase_def capitalize_def toUpperChar_def)
  show ?thesis
    using zero_argument_method [OF rt [of False], of "''Title''" "[]"]
      zero_argument_method [OF rt [of True], of "''TitleAsync''" "[]"]
    by (simp add: methodMember_def exampleEnv_simps inTemplate_def signature_def
          waitForExclusions_def Let_def)
qed

section \<open>The action parameter of WaitFor methods\<close>

text \<open>The definitions that a run of \<open>renderMethod\<close> on a concrete method unfolds.\<close>

lemmas renderMethod_eval =
  renderMethod_def genericName_def asyncReturnType_def returnTypeOf_def resolveType_def resultName_def toMemberName_def
  translateType.simps processArg.simps explodeArgs.simps
  sortArgs_def emptyMethodState_def insertWaitForAction_def indexOf_def spliceInsert_def
  addParamsDoc_def docKey_def pushArg_def nullableTypes_def inTemplate_def inJoin_def
  printArgDoc_def paramLines_def signature_def actionArg_def waitForExclusions_def
  argDoc_def overloadedArgs_def explodedMarker_def containsOptionalExplodedArgs_def
  renderFiltered_def generateNameDefault_def
  methodMember_def argumentMember_def simpleType_def unionType_def
  exampleEnv_simps toArgumentName_def toTitleCase_def capitalize_def toUpperChar_def
  classNameMap_def mapSet_def orElse_def truthy_def unionIsArrayOfFirst_def
  sanitizedArgName_def wordChar_def spaceOrQuote_def lineTerminator_def
  initialState_def page_def Let_def suffix_to_prefix

lemma find_first_split:
  "find P xs = Some a \<Longrightarrow>
     \<exists>pre post. xs = pre @ a # post \<and> (\<forall>x\<in>set pre. \<not> P x) \<and> P a
                \<and> pre = takeWhile (\<lambda>y. y \<noteq> a) xs"
proof (induction xs)
  case Nil
  then show ?case by simp
next
  case (Cons x xs)
  show ?case
  proof (cases "P x")
    case True
    with Cons.prems have "x = a" by simp
    with True show ?thesis by (intro exI [of _ "[]"] exI [of _ xs]) simp
  next
    case False
    with Cons.prems have f: "find P xs = Some a" by simp
    from Cons.IH [OF f] obtain pre post where
      p: "xs = pre @ a # post" "\<forall>x\<in>set pre. \<not> P x" "P a" "pre = takeWhile (\<lambda>y. y \<noteq> a) xs"
      by blast
    from False p(3) have "x \<noteq> a" by auto
    with p False show ?thesis
      by (intro exI [of _ "x # pre"] exI [of _ post]) simp
  qed
qed

lemma spliceInsert_at:
  "spliceInsert (int (length pre)) x (pre @ post) = pre @ x # post"
  by (simp add: spliceInsert_def Let_def)

lemma actionArg_not_marker:
  "\<not> explodedMarker actionArg" "actionArg \<noteq> ''OPTIONAL_EXPLODED_ARG''"
  by (simp_all add: explodedMarker_def actionArg_def)

lemma includes_eq_not_marker:
  assumes "includesStr ''='' a"
  shows "\<not> explodedMarker a" "a \<noteq> ''OPTIONAL_EXPLODED_ARG''"
  using assms by (auto simp: explodedMarker_def)

text \<open>
  When some rendered argument has a default value (its text contains \<open>=\<close>), the \<open>WaitFor\<close>
  step puts the \<open>action\<close> parameter immediately before the first such argument, and it
  stays there in each of the three argument lists from which \<open>renderMethod\<close> builds its
  signatures: the list itself, the list of an overload, and the list without the optional
  exploded arguments. The step fails only when a parameter \<open>action\<close> is documented already.
\<close>

lemma waitFor_action_before_first_default:
  assumes "includesStr ''WaitFor'' nm" and "nm \<notin> set waitForExclusions"
    and "find (\<lambda>a. includesStr ''='' a) (argList ms) = Some a"
  shows "\<exists>pre post.
           argList ms = pre @ a # post \<and> (\<forall>x\<in>set pre. \<not> includesStr ''='' x)
           \<and> (\<forall>ms'. insertWaitForAction nm ms = Inr ms' \<longrightarrow>
                  argList ms' = pre @ actionArg # a # post
                  \<and> explodedArgs ms' = explodedArgs ms
                  \<and> (\<forall>e. overloadedArgs e (argList ms')
                           = overloadedArgs e pre @ actionArg # a # overloadedArgs e post)
                  \<and> filter (\<lambda>x. x \<noteq> ''OPTIONAL_EXPLODED_ARG'') (argList ms')
                      = filter (\<lambda>x. x \<noteq> ''OPTIONAL_EXPLODED_ARG'') pre @ actionArg # a
                        # filter (\<lambda>x. x \<noteq> ''OPTIONAL_EXPLODED_ARG'') post)
           \<and> (map_of (paramDocs ms) ''action'' = None \<longrightarrow>
                  (\<exists>ms'. insertWaitForAction nm ms = Inr ms'))"
proof -
  from find_first_split [OF assms(3)] obtain pre post where
    p: "argList ms = pre @ a # post" "\<forall>x\<in>set pre. \<not> includesStr ''='' x"
       "includesStr ''='' a" "pre = takeWhile (\<lambda>y. y \<noteq> a) (argList ms)"
    by blast
  have "a \<in> set (argList ms)"
    by (subst p(1)) simp
  then have i: "indexOf (argList ms) (Some a) = int (length pre)"
    using p(4) by (simp add: indexOf_def)
  have s: "spliceInsert (indexOf (argList ms) (Some a)) actionArg (argList ms)
             = pre @ actionArg # a # post"
    using spliceInsert_at [of pre actionArg "a # post"] by (simp add: i p(1) [symmetric])
  have r: "argList ms' = pre @ actionArg # a # post \<and> explodedArgs ms' = explodedArgs ms"
    if "insertWaitForAction nm ms = Inr ms'" for ms'
    using that assms(1,2,3) s
    by (auto simp: insertWaitForAction_def Let_def dest!: addParamsDoc_keeps)
  have ok: "\<exists>ms'. insertWaitForAction nm ms = Inr ms'" if "map_of (paramDocs ms) ''action'' = None"
    using that assms(1,2)
    by (simp add: insertWaitForAction_def Let_def addParamsDoc_def docKey_def)
  show ?thesis
    using p(1,2) r ok includes_eq_not_marker [OF p(3)] actionArg_not_marker
    by (intro exI [of _ pre] exI [of _ post]) (auto simp: overloadedArgs_def)
qed

text \<open>When no rendered argument has a default value, the parameter goes before the last
  argument, whatever that argument is.\<close>

lemma spliceInsert_minus_one:
  "spliceInsert (- 1) x xs = (if xs = [] then [x] else butlast xs @ [x, last xs])"
proof (cases xs rule: rev_cases)
  case Nil
  then show ?thesis by (simp add: spliceInsert_def)
next
  case (snoc ys y)
  then show ?thesis by (simp add: spliceInsert_def Let_def nat_add_distrib)
qed

lemma waitFor_action_without_default:
  assumes "includesStr ''WaitFor'' nm" and "nm \<notin> set waitForExclusions"
    and "find (\<lambda>a. includesStr ''='' a) (argList ms) = None"
    and "insertWaitForAction nm ms = Inr ms'"
  shows "argList ms' =
           (if argList ms = [] then [actionArg]
            else butlast (argList ms) @ [actionArg, last (argList ms)])"
  using assms
  by (auto simp: insertWaitForAction_def Let_def indexOf_def spliceInsert_minus_one
           dest!: addParamsDoc_keeps)

text \<open>
  Claim C10: every rendered method whose display name contains \<open>WaitFor\<close> (six names
  excepted) gets the extra parameter \<open>Func<Task> action = default\<close>, inserted immediately
  before the first optional argument of every emitted signature.
  The code looks for the first rendered argument with a default value and inserts at its
  index, as the first lemma above shows. When no argument has a default value, \<open>find\<close> returns
  \<open>undefined\<close>, \<open>indexOf\<close> returns \<open>-1\<close>, and \<open>splice(-1, 0, ...)\<close> inserts before the last
  argument: for \<open>waitForEvent\<close> with its one required argument the optional \<open>action\<close>
  parameter is emitted in front of the required parameter.
\<close>

theorem waitFor_action_before_required_argument:
  "renderMethod exampleEnv
     (methodMember ''waitForEvent'' True (simpleType ''string'')
        [argumentMember ''event'' True (simpleType ''string'')])
     page ''WaitForEventAsync'' [] initialState
   = Inr ([''/// <summary>Calls waitForEvent.</summary>'',
           ''/// <param name=\"event\">The event.</param>'',
           ''/// <param name=\"action\">Action to perform while waiting</param>'',
           ''Task<string> WaitForEventAsync(Func<Task> action = default, string @event);''],
          initialState)"
  by (simp add: renderMethod_eval)

section \<open>Union parameters become overloads\<close>

lemma map_of_foldl_update_None:
  "map_of m0 n = None \<Longrightarrow> n \<notin> fst ` set kvs \<Longrightarrow>
     map_of (foldl (\<lambda>m (k, v). mapSet k v m) m0 kvs) n = None"
  by (induction kvs arbitrary: m0) (auto simp: mapSet_def update_conv')

lemma classNameMap_string_number:
  assumes "''string'' \<notin> set cs" and "''number'' \<notin> set cs"
  shows "map_of (classNameMap cs) ''string'' = None" "map_of (classNameMap cs) ''number'' = None"
  using assms unfolding classNameMap_def
  by (intro map_of_foldl_update_None; auto simp: image_iff)+

lemma translateType_string_number:
  assumes "''string'' \<notin> set cs" and "''number'' \<notin> set cs"
  shows "translateType cs p cb st (simpleType ''string'') = Inr (Some ''string'', st)"
    and "translateType cs p cb st (simpleType ''number'') = Inr (Some ''number'', st)"
  using classNameMap_string_number [OF assms]
  by (simp_all add: translateType.simps simpleType_def orElse_def)

lemma translateType_stringOrNumber:
  "translateType cs p cb st stringOrNumber = Inr (None, st)"
  by (simp add: translateType.simps stringOrNumber_def unionType_def simpleType_def
        unionIsArrayOfFirst_def)

lemma processArg_plain:
  assumes "mtype arg = Some ty" and "mname arg \<noteq> ''options''"
    and "expression ty \<noteq> Some ''[string]|[path]''"
    and "expression ty \<noteq> Some ''[boolean]|[Array]<[string]>''"
    and "translateType (classesArray env) parent
           (generateNameDefault (jsonStringify env) (Some member)
              (toArgumentName (orElse (malias arg) (mname arg))) parent)
           (globals ms) ty = Inr (Some argType, st1)"
  shows "processArg env member parent arg ms =
     (let argName = toArgumentName (orElse (malias arg) (mname arg)) in
      case addParamsDoc argName (renderTextOnly env (spec arg)) (ms\<lparr>globals := st1\<rparr>) of
        Inl e \<Rightarrow> Inl e
      | Inr ms1 \<Rightarrow>
          if argName = ''timeout'' \<and> Some argType = Some ''decimal'' then
            Inr (ms1\<lparr>argList := argList ms1 @ [''int timeout = 0'']\<rparr>)
          else Inr (pushArg (Some argType) argName arg False ms1))"
  by (subst processArg.simps) (simp add: assms Let_def)

lemma processArg_exploded:
  assumes "mtype arg = Some ty" and "mname arg \<noteq> ''options''"
    and "expression ty \<noteq> Some ''[string]|[path]''"
    and "expression ty \<noteq> Some ''[boolean]|[Array]<[string]>''"
    and "union ty = Some us"
    and "translateType (classesArray env) parent
           (generateNameDefault (jsonStringify env) (Some member)
              (toArgumentName (orElse (malias arg) (mname arg))) parent)
           (globals ms) ty = Inr (None, st1)"
    and "translateTypes (classesArray env) parent
           (generateNameDefault (jsonStringify env) (Some member)
              (toArgumentName (orElse (malias arg) (mname arg))) parent)
           st1 us = Inr (map Some tas, st2)"
  shows "processArg env member parent arg ms =
     (case explodeArgs (toArgumentName (orElse (malias arg) (mname arg)))
             (renderTextOnly env (spec arg)) arg tas (ms\<lparr>globals := st2\<rparr>) of
        Inl e \<Rightarrow> Inl e
      | Inr ms1 \<Rightarrow>
          Inr (ms1\<lparr>argList := argList ms1 @
                 [if required arg then ''EXPLODED_ARG'' else ''OPTIONAL_EXPLODED_ARG'']\<rparr>))"
  by (subst processArg.simps) (simp add: assms Let_def comp_def)


lemma ends_in_id: "idT @ '' id'' = s \<Longrightarrow> last s = CHR ''d''"
  by auto

lemma id_key_distinct:
  "idT @ '' id'' \<noteq> ''string valueString''" "idT @ '' id'' \<noteq> ''number valueNumber''"
  "idT @ '' id'' \<noteq> ''EXPLODED_ARG''" "idT @ '' id'' \<noteq> ''OPTIONAL_EXPLODED_ARG''"
  "''string valueString'' \<noteq> idT @ '' id''" "''number valueNumber'' \<noteq> idT @ '' id''"
  using ends_in_id [of idT "''string valueString''"] ends_in_id [of idT "''number valueNumber''"]
    ends_in_id [of idT "''EXPLODED_ARG''"] ends_in_id [of idT "''OPTIONAL_EXPLODED_ARG''"]
  by auto

lemma explode_string_number:
  "explodeArgs ''value'' dV arg [''string'', ''number'']
     \<lparr>globals = st, paramDocs = [(''id'', dI)], argList = [idT @ '' id''], explodedArgs = [],
      argTypeMap = [(idT @ '' id'', ''id'')]\<rparr>
   = Inr \<lparr>globals = st,
           paramDocs = [(''id'', dI), (''valueString'', dV), (''valueNumber'', dV)],
           argList = [idT @ '' id''],
           explodedArgs = [''string valueString'', ''number valueNumber''],
           argTypeMap = [(idT @ '' id'', ''id''), (''string valueString'', ''valueString''),
                         (''number valueNumber'', ''valueNumber'')]\<rparr>"
  by (simp add: sanitizedArgName_def wordChar_def spaceOrQuote_def capitalize_def toUpperChar_def
        pushArg_def inTemplate_def addParamsDoc_def docKey_def mapSet_def Let_def id_key_distinct)


text \<open>
  Claim C2: a method with a required parameter \<open>id\<close> and a second parameter \<open>value\<close> of
  type \<open>Union[string, number]\<close>, which \<open>translateType\<close> resolves to \<open>null\<close>, renders, when
  \<open>value\<close> is required, as exactly two overloads, \<open>(id, value as string)\<close> and
  \<open>(id, value as number)\<close>, in the order of the variants, and no further overload; when
  \<open>value\<close> is optional it renders one more overload, \<open>(id)\<close>, without the value parameter.
  The theorem gives the whole output: each overload is the method's documentation, the
  documentation of its parameters and its signature; the exploded parameters are named
  \<open>valueString\<close> and \<open>valueNumber\<close>; a blank line separates the two overloads. It holds for
  every environment in which \<open>string\<close> and \<open>number\<close> are not documented classes, for every
  type of \<open>id\<close> that translates to one target type, and for every method name that is not
  subject to the \<open>WaitFor\<close> rule.
\<close>

theorem union_parameter_overloads:
  assumes rt: "returnTypeOf env member parent st = Inr (type0, st1)"
    and args: "argsArray member = [idArg, valueArg]"
    and idn: "mname idArg = ''id''" "malias idArg = None \<or> malias idArg = Some ''id''"
    and idr: "required idArg"
    and idt: "mtype idArg = Some idType" "expression idType \<noteq> Some ''[string]|[path]''"
      "expression idType \<noteq> Some ''[boolean]|[Array]<[string]>''"
    and idtr: "translateType (classesArray env) parent
                 (generateNameDefault (jsonStringify env) (Some member) ''id'' parent) st1 idType
               = Inr (Some idT, st2)"
    and vn: "mname valueArg = ''value''" "malias valueArg = None \<or> malias valueArg = Some ''value''"
    and vt: "mtype valueArg = Some stringOrNumber"
    and cls: "''string'' \<notin> set (classesArray env)" "''number'' \<notin> set (classesArray env)"
    and nw: "\<not> (includesStr ''WaitFor'' (genericName type0 name0)
                 \<and> genericName type0 name0 \<notin> set waitForExclusions)"
  shows "let X = renderXmlDoc env (spec member);
             idDoc = paramLines ''id'' (renderTextOnly env (spec idArg));
             dV = renderTextOnly env (spec valueArg);
             first = X @ idDoc @ paramLines ''valueString'' dV
                     @ [signature (asyncReturnType member type0) (genericName type0 name0) [idT @ '' id'', ''string valueString'']];
             second = X @ idDoc @ paramLines ''valueNumber'' dV
                     @ [signature (asyncReturnType member type0) (genericName type0 name0) [idT @ '' id'', ''number valueNumber'']];
             third = X @ idDoc @ [signature (asyncReturnType member type0) (genericName type0 name0) [idT @ '' id'']]
         in renderMethod env member parent name0 out st =
              Inr (out @ first @ [[]] @ second @ (if required valueArg then [] else third), st2)"
proof -
  have an: "toArgumentName (orElse (malias idArg) (mname idArg)) = ''id''"
      "toArgumentName (orElse (malias valueArg) (mname valueArg)) = ''value''"
      "toArgumentName (orElse (malias idArg) ''id'') = ''id''"
      "toArgumentName (orElse (malias valueArg) ''value'') = ''value''"
    using idn vn by (auto simp: toArgumentName_def orElse_def)
  have so: "sortArgs env [idArg, valueArg] = [idArg, valueArg]"
    using idn(2) vn(2) by (auto simp: sortArgs_def)
  have A: "processArg env member parent idArg (emptyMethodState st1) =
      Inr \<lparr>globals = st2, paramDocs = [(''id'', renderTextOnly env (spec idArg))],
           argList = [idT @ '' id''], explodedArgs = [],
           argTypeMap = [(idT @ '' id'', ''id'')]\<rparr>"
    using idtr idr
    by (subst processArg_plain [where ty = idType and argType = idT and ?st1.0 = st2])
       (simp_all add: idt idn(1) an emptyMethodState_def addParamsDoc_def docKey_def
          mapSet_def pushArg_def inTemplate_def Let_def)
  have B: "processArg env member parent valueArg
      \<lparr>globals = st2, paramDocs = [(''id'', renderTextOnly env (spec idArg))],
           argList = [idT @ '' id''], explodedArgs = [],
           argTypeMap = [(idT @ '' id'', ''id'')]\<rparr> =
      Inr \<lparr>globals = st2,
           paramDocs = [(''id'', renderTextOnly env (spec idArg)),
                        (''valueString'', renderTextOnly env (spec valueArg)),
                        (''valueNumber'', renderTextOnly env (spec valueArg))],
           argList = [idT @ '' id'',
                      if required valueArg then ''EXPLODED_ARG'' else ''OPTIONAL_EXPLODED_ARG''],
           explodedArgs = [''string valueString'', ''number valueNumber''],
           argTypeMap = [(idT @ '' id'', ''id''), (''string valueString'', ''valueString''),
                         (''number valueNumber'', ''valueNumber'')]\<rparr>"
    by (subst processArg_exploded [where ty = stringOrNumber and ?st1.0 = st2 and ?st2.0 = st2
            and us = "[simpleType ''string'', simpleType ''number'']"
            and tas = "[''string'', ''number'']"])
       (simp_all add: vt vn(1) an translateType_stringOrNumber translateType_string_number [OF cls]
          explode_string_number del: explodeArgs.simps,
        simp_all add: stringOrNumber_def unionType_def)
  have W: "insertWaitForAction (genericName type0 name0) ms = Inr ms" for ms :: "'a MethodState"
    using nw by (auto simp: insertWaitForAction_def)
  show ?thesis
    by (simp add: renderMethod_def rt args so A B W Let_def
          argDoc_def printArgDoc_def overloadedArgs_def
          explodedMarker_def containsOptionalExplodedArgs_def renderFiltered_def
          id_key_distinct)
qed


lemma methodMember_simps:
  "kind (methodMember nm a ty as) = ''method''" "mname (methodMember nm a ty as) = nm"
  "malias (methodMember nm a ty as) = Some nm" "required (methodMember nm a ty as) = True"
  "async (methodMember nm a ty as) = a" "mtype (methodMember nm a ty as) = Some ty"
  "argsArray (methodMember nm a ty as) = as"
  "spec (methodMember nm a ty as) = Some (''Calls '' @ nm @ ''.'')"
  by (simp_all add: methodMember_def)

lemma argumentMember_simps:
  "kind (argumentMember nm r ty) = ''property''" "mname (argumentMember nm r ty) = nm"
  "malias (argumentMember nm r ty) = Some nm" "required (argumentMember nm r ty) = r"
  "async (argumentMember nm r ty) = False" "mtype (argumentMember nm r ty) = Some ty"
  "argsArray (argumentMember nm r ty) = []"
  "spec (argumentMember nm r ty) = Some (''The '' @ nm @ ''.'')"
  by (simp_all add: argumentMember_def)

lemma simpleType_simps:
  "name (simpleType n) = n" "expression (simpleType n) = None" "union (simpleType n) = None"
  "templates (simpleType n) = None" "properties (simpleType n) = None"
  "args (simpleType n) = None" "returnType (simpleType n) = None"
  by (simp_all add: simpleType_def)

theorem union_parameter_overloads_witness:
  "renderMethod exampleEnv
     (methodMember ''setValue'' False (simpleType ''void'')
        [argumentMember ''id'' True (simpleType ''string''),
         argumentMember ''value'' True stringOrNumber])
     page ''SetValue'' [] initialState
   = Inr ([''/// <summary>Calls setValue.</summary>'',
           ''/// <param name=\"id\">The id.</param>'',
           ''/// <param name=\"valueString\">The value.</param>'',
           ''void SetValue(string id, string valueString);'',
           [],
           ''/// <summary>Calls setValue.</summary>'',
           ''/// <param name=\"id\">The id.</param>'',
           ''/// <param name=\"valueNumber\">The value.</param>'',
           ''void SetValue(string id, number valueNumber);''],
          initialState)
   \<and> renderMethod exampleEnv
     (methodMember ''setValue'' False (simpleType ''void'')
        [argumentMember ''id'' True (simpleType ''string''),
         argumentMember ''value'' False stringOrNumber])
     page ''SetValue'' [] initialState
   = Inr ([''/// <summary>Calls setValue.</summary>'',
           ''/// <param name=\"id\">The id.</param>'',
           ''/// <param name=\"valueString\">The value.</param>'',
           ''void SetValue(string id, string valueString);'',
           [],
           ''/// <summary>Calls setValue.</summary>'',
           ''/// <param name=\"id\">The id.</param>'',
           ''/// <param name=\"valueNumber\">The value.</param>'',
           ''void SetValue(string id, number valueNumber);'',
           ''/// <summary>Calls setValue.</summary>'',
           ''/// <param name=\"id\">The id.</param>'',
           ''void SetValue(string id);''],
          initialState)"
proof -
  have rt: "returnTypeOf exampleEnv
              (methodMember ''setValue'' False (simpleType ''void'')
                 [argumentMember ''id'' True (simpleType ''string''),
                  argumentMember ''value'' r stringOrNumber])
              page initialState = Inr (Some ''void'', initialState)" for r
    by (simp add: returnTypeOf_def methodMember_def simpleType_def resolveType_def
          translateType.simps truthy_def classNameMap_def mapSet_def orElse_def
          exampleEnv_simps toTitleCase_def capitalize_def toUpperChar_def)
  have idtr: "translateType [''Page''] page cb initialState (simpleType ''string'')
              = Inr (Some ''string'', initialState)" for cb :: "string callback"
    by (simp add: translateType.simps simpleType_def classNameMap_def mapSet_def orElse_def
          toTitleCase_def capitalize_def toUpperChar_def)
  show ?thesis
    using union_parameter_overloads
            [where env = exampleEnv and parent = page and st = initialState
               and ?type0.0 = "Some ''void''" and ?st1.0 = initialState
               and ?st2.0 = initialState and idT = "''string''"
               and idArg = "argumentMember ''id'' True (simpleType ''string'')"
               and valueArg = "argumentMember ''value'' True stringOrNumber"
               and idType = "simpleType ''string''" and ?name0.0 = "''SetValue''" and out = "[]"
               and member = "methodMember ''setValue'' False (simpleType ''void'')
                               [argumentMember ''id'' True (simpleType ''string''),
                                argumentMember ''value'' True stringOrNumber]"]
          union_parameter_overloads
            [where env = exampleEnv and parent = page and st = initialState
               and ?type0.0 = "Some ''void''" and ?st1.0 = initialState
               and ?st2.0 = initialState and idT = "''string''"
               and idArg = "argumentMember ''id'' True (simpleType ''string'')"
               and valueArg = "argumentMember ''value'' False stringOrNumber"
               and idType = "simpleType ''string''" and ?name0.0 = "''SetValue''" and out = "[]"
               and member = "methodMember ''setValue'' False (simpleType ''void'')
                               [argumentMember ''id'' True (simpleType ''string''),
                                argumentMember ''value'' False stringOrNumber]"]
    by (simp add: rt idtr methodMember_simps argumentMember_simps simpleType_simps
          exampleEnv_simps genericName_def asyncReturnType_def paramLines_def signature_def
          inTemplate_def Let_def)
qed

section \<open>The string-or-path parameter in the rendered method\<close>

text \<open>
  A method whose only argument has the expression \<open>[string]|[path]\<close> renders as one
  signature with the two sibling parameters, after the documentation of the method and of the
  two parameters (when the argument is documented). The default value \<open>null\<close> is part of the
  parameter's text, and an optional argument gets \<open>= default\<close> after it as well.
\<close>

lemma string_or_path_one_signature:
  assumes rt: "returnTypeOf env member parent st = Inr (type0, st1)"
    and args: "argsArray member = [arg]"
    and ty: "mtype arg = Some ty" "expression ty = Some ''[string]|[path]''"
    and nm: "mname arg \<noteq> ''options''" "malias arg \<noteq> Some ''options''"
    and nw: "\<not> (includesStr ''WaitFor'' (genericName type0 name0)
                 \<and> genericName type0 name0 \<notin> set waitForExclusions)"
  shows "renderMethod env member parent name0 out st =
     (let n = toArgumentName (mname arg);
          d = (if required arg then [] else '' = default'')
      in Inr (out @ renderXmlDoc env (spec member)
              @ (if spec arg \<noteq> None then
                   paramLines (docKey n) (renderTextOnly env (spec arg))
                   @ paramLines (docKey n @ ''Path'')
                       [''Instead of specifying <paramref name=\"'' @ n
                        @ ''\"/>, gives the file name to load from.'']
                 else [])
              @ [signature (asyncReturnType member type0) (genericName type0 name0)
                   [''string '' @ n @ '' = null'' @ d, ''string '' @ n @ ''Path = null'' @ d]],
              st1))"
proof -
  have so: "sortArgs env [arg] = [arg]"
    using nm(2) by (simp add: sortArgs_def)
  have W: "insertWaitForAction (genericName type0 name0) ms = Inr ms" for ms :: "'a MethodState"
    using nw by (auto simp: insertWaitForAction_def)
  show ?thesis
    by (simp add: renderMethod_def rt args so W processArg_string_or_path [OF ty nm(1)]
          pushArg_string addParamsDoc_def docKey_Path mapSet_def emptyMethodState_def
          printArgDoc_def Let_def)
qed

lemma string_or_path_one_signature_example:
  "renderMethod exampleEnv
     (methodMember ''addInitScript'' True (simpleType ''void'')
        [argumentMember ''script'' True stringOrPath])
     page ''AddInitScriptAsync'' [] initialState
   = Inr ([''/// <summary>Calls addInitScript.</summary>'',
           ''/// <param name=\"script\">The script.</param>'',
           ''/// <param name=\"scriptPath\">Instead of specifying <paramref name=\"script\"/>, gives the file name to load from.</param>'',
           ''Task AddInitScriptAsync(string script = null, string scriptPath = null);''],
          initialState)"
  by (simp add: renderMethod_eval stringOrPath_def)

text \<open>In the loop over the exploded arguments, the first rendered argument whose
  documentation cannot be printed aborts the run.\<close>

lemma renderOverloads_first_argument:
  assumes "argList ms = a # as" and "\<not> explodedMarker a" and "argDoc ms a = Inl e"
  shows "renderOverloads xmlDoc type nm ms (explodedArg # rest) = Inl e"
  by (simp add: assms)

text \<open>
  \<open>processArg\<close> passes \<open>script = null\<close> to \<open>pushArg\<close> as the parameter's name, and
  \<open>pushArg\<close> files it under the rendered text in \<open>argTypeMap\<close>; the documentation is filed
  in \<open>paramDocs\<close> under \<open>script\<close>. Only the overloads of a method are rendered through
  \<open>argTypeMap\<close>: the loop over the exploded arguments asks \<open>paramDocs\<close> for
  \<open>script = null\<close>, and \<open>printArgDoc\<close> reads the length of \<open>undefined\<close>. So a method with the argument \<open>script\<close> of the string-or-path
  shape and an argument \<open>value\<close> of type \<open>Union[string, number]\<close> is not rendered, whatever
  the environment, the return type, the documentation and the optionality of the two
  arguments are.
\<close>

lemma string_or_path_beside_union_aborts:
  assumes rt: "returnTypeOf env member parent st = Inr (type0, st1)"
    and args: "argsArray member = [pathArg, valueArg]"
    and pn: "mname pathArg = ''script''" "malias pathArg \<noteq> Some ''options''"
    and pt: "mtype pathArg = Some ty" "expression ty = Some ''[string]|[path]''"
    and vn: "mname valueArg = ''value''" "malias valueArg = None \<or> malias valueArg = Some ''value''"
    and vt: "mtype valueArg = Some stringOrNumber"
    and cls: "''string'' \<notin> set (classesArray env)" "''number'' \<notin> set (classesArray env)"
    and nw: "\<not> (includesStr ''WaitFor'' (genericName type0 name0)
                 \<and> genericName type0 name0 \<notin> set waitForExclusions)"
  shows "renderMethod env member parent name0 out st = Inl TypeError"
proof -
  define d where "d = (if required pathArg then [] else '' = default'')"
  define a1 where "a1 = ''string script = null'' @ d"
  define a2 where "a2 = ''string scriptPath = null'' @ d"
  define docs where "docs =
     (if spec pathArg \<noteq> None then
        [(''script'', renderTextOnly env (spec pathArg)),
         (''scriptPath'',
          [''Instead of specifying <paramref name=\"script\"/>, gives the file name to load from.''])]
      else [])"
  have an: "toArgumentName (orElse (malias valueArg) (mname valueArg)) = ''value''"
      "toArgumentName (orElse (malias valueArg) ''value'') = ''value''"
    using vn by (auto simp: toArgumentName_def orElse_def)
  have so: "sortArgs env [pathArg, valueArg] = [pathArg, valueArg]"
    using pn(2) vn(2) by (auto simp: sortArgs_def)
  have A: "processArg env member parent pathArg (emptyMethodState st1) =
      Inr \<lparr>globals = st1, paramDocs = docs, argList = [a1, a2], explodedArgs = [],
           argTypeMap = [(a1, ''script = null''), (a2, ''scriptPath = null'')]\<rparr>"
    by (simp add: processArg_string_or_path [OF pt] pn(1) toArgumentName_def pushArg_string
          addParamsDoc_def docKey_def mapSet_def emptyMethodState_def d_def a1_def a2_def docs_def
          Let_def)
  have dk: "map_of docs ''valueString'' = None" "map_of docs ''valueNumber'' = None"
      "map_of docs ''script = null'' = None"
    by (simp_all add: docs_def)
  have ne: "a1 \<noteq> ''string valueString''" "a1 \<noteq> ''number valueNumber''"
      "a2 \<noteq> ''string valueString''" "a2 \<noteq> ''number valueNumber''"
      "''string valueString'' \<noteq> a1" "''number valueNumber'' \<noteq> a1"
      "''string valueString'' \<noteq> a2" "''number valueNumber'' \<noteq> a2" "a1 \<noteq> a2"
    by (simp_all add: a1_def a2_def d_def)
  have E: "explodeArgs ''value'' dV valueArg [''string'', ''number'']
       \<lparr>globals = st1, paramDocs = docs, argList = [a1, a2], explodedArgs = [],
           argTypeMap = [(a1, ''script = null''), (a2, ''scriptPath = null'')]\<rparr>
     = Inr \<lparr>globals = st1,
           paramDocs = docs @ [(''valueString'', dV), (''valueNumber'', dV)],
           argList = [a1, a2],
           explodedArgs = [''string valueString'', ''number valueNumber''],
           argTypeMap = [(a1, ''script = null''), (a2, ''scriptPath = null''),
                         (''string valueString'', ''valueString''),
                         (''number valueNumber'', ''valueNumber'')]\<rparr>" for dV
    by (simp add: sanitizedArgName_def wordChar_def spaceOrQuote_def capitalize_def toUpperChar_def
          pushArg_def inTemplate_def addParamsDoc_def docKey_def mapSet_def Let_def ne docs_def)
  define ms2 where "ms2 =
       \<lparr>globals = st1,
           paramDocs = docs @ [(''valueString'', renderTextOnly env (spec valueArg)),
                               (''valueNumber'', renderTextOnly env (spec valueArg))],
           argList = [a1, a2,
                      if required valueArg then ''EXPLODED_ARG'' else ''OPTIONAL_EXPLODED_ARG''],
           explodedArgs = [''string valueString'', ''number valueNumber''],
           argTypeMap = [(a1, ''script = null''), (a2, ''scriptPath = null''),
                         (''string valueString'', ''valueString''),
                         (''number valueNumber'', ''valueNumber'')]\<rparr>"
  have B: "processArg env member parent valueArg
       \<lparr>globals = st1, paramDocs = docs, argList = [a1, a2], explodedArgs = [],
           argTypeMap = [(a1, ''script = null''), (a2, ''scriptPath = null'')]\<rparr>
     = Inr ms2"
    unfolding ms2_def
    by (subst processArg_exploded [where ty = stringOrNumber and ?st1.0 = st1 and ?st2.0 = st1
            and us = "[simpleType ''string'', simpleType ''number'']"
            and tas = "[''string'', ''number'']"])
       (simp_all add: vt vn(1) an translateType_stringOrNumber translateType_string_number [OF cls]
          E del: explodeArgs.simps,
        simp_all add: stringOrNumber_def unionType_def)
  have P: "processArgs env member parent [pathArg, valueArg] (emptyMethodState st1) = Inr ms2"
    by (simp add: A B)
  have W: "insertWaitForAction (genericName type0 name0) ms = Inr ms" for ms :: "'a MethodState"
    using nw by (auto simp: insertWaitForAction_def)
  have nm: "\<not> explodedMarker a1"
    by (simp add: explodedMarker_def a1_def d_def)
  have AD: "argDoc ms2 a1 = Inl TypeError"
    by (simp add: ms2_def argDoc_def printArgDoc_def dk map_add_def)
  have al: "argList ms2 = a1 # [a2, if required valueArg then ''EXPLODED_ARG''
                                     else ''OPTIONAL_EXPLODED_ARG'']"
    by (simp add: ms2_def)
  have ea: "explodedArgs ms2 = [''string valueString'', ''number valueNumber'']"
    by (simp add: ms2_def)
  have RO: "renderOverloads X t n ms2 (explodedArgs ms2) = Inl TypeError" for X t n
    unfolding ea by (rule renderOverloads_first_argument [OF al nm AD])
  have E2: "explodedArgs ms2 \<noteq> []"
    by (simp add: ea)
  show ?thesis
    by (simp add: renderMethod_def rt args so P W RO E2 Let_def del: processArgs.simps)
qed

text \<open>
  Claim C8: a parameter whose type has the expression \<open>[string]|[path]\<close> always renders as
  exactly two sibling parameters, the parameter's name and that name with the suffix \<open>Path\<close>,
  and is never exploded into overloads.
  \<open>processArg\<close> does push the two parameters and explodes nothing, and a method without an
  exploded argument renders them in its one signature, as the lemmas above show. But the
  name that \<open>argTypeMap\<close> holds for the parameter (\<open>script = null\<close>) is not the key of its
  documentation (\<open>script\<close>), and the overloads of a method are rendered through
  \<open>argTypeMap\<close>: for the method \<open>addInitScript\<close> with the string-or-path argument \<open>script\<close>
  and the argument \<open>value\<close> of type \<open>Union[string, number]\<close>, \<open>renderMethod\<close> ends in a
  \<open>TypeError\<close>, and no signature is rendered, with or without the two sibling parameters.
\<close>

theorem string_or_path_beside_union_parameter:
  "renderMethod exampleEnv
     (methodMember ''addInitScript'' True (simpleType ''void'')
        [argumentMember ''script'' True stringOrPath,
         argumentMember ''value'' True stringOrNumber])
     page ''AddInitScriptAsync'' [] initialState
   = Inl TypeError"
  by (simp add: renderMethod_eval stringOrPath_def stringOrNumber_def)

end
